theory Spec2Isabelle
  imports Main "HOL-Library.Char_ord" "HOL-Library.List_Lexorder"
begin

section \<open>Kirkespor arbeidsplan: the calendar front end (frontend/src/App.js)\<close>

text \<open>
  The component \<^verbatim>\<open>App\<close> keeps its state in React state cells and changes it in event
  handlers, in two effects and in the continuations of its asynchronous calls. Each of
  them is a function on an explicit state record here. The calls of the date library
  (date-fns) and of the JavaScript \<^verbatim>\<open>Date\<close> object are modelled on local calendar
  days.
\<close>

subsection \<open>JavaScript dates in local time\<close>

text \<open>
  A \<^verbatim>\<open>Date\<close> as date-fns sees it, in local wall-clock time: the number of the local
  calendar day (day 0 is 1970-01-01) and the milliseconds since local midnight. All the
  functions used by the component work on the local fields (\<^verbatim>\<open>getDay\<close>,
  \<^verbatim>\<open>getDate\<close>, \<^verbatim>\<open>setDate\<close>, \<^verbatim>\<open>setHours\<close>, \<^verbatim>\<open>setMonth\<close>), so the time zone does not
  appear except where a date is set to a local time that does not exist.
\<close>

record js_date =
  day :: int
  ms_of_day :: nat

text \<open>
  When \<^verbatim>\<open>setDate\<close>, \<^verbatim>\<open>setMonth\<close>, \<^verbatim>\<open>setFullYear\<close> or \<^verbatim>\<open>setHours\<close> asks for a
  local time that a change of the clocks skips (on the day daylight saving begins), the
  engine gives the time moved forward by the skipped span: in Europe/Oslo, 02:30 on
  2024-03-31 becomes 03:30. The time zone is a parameter of the model: \<open>tz d ms\<close> is the
  time of day the engine gives when the time \<open>ms\<close> of the local day \<open>d\<close> is asked for,
  \<open>ms\<close> itself when that time exists. A skipped span that would move the time into
  another day is not modelled.
\<close>

type_synonym time_zone = "int \<Rightarrow> nat \<Rightarrow> nat"

text \<open>A zone whose clocks never change, and Europe/Oslo in the spring of 2024.\<close>

definition no_dst :: time_zone where
  "no_dst d ms = ms"

definition oslo_2024 :: time_zone where
  "oslo_2024 d ms = (if d = 19813 \<and> 7200000 \<le> ms \<and> ms < 10800000 then ms + 3600000 else ms)"

text \<open>The proleptic Gregorian calendar: day number of the civil date \<open>y-m-d\<close>, \<open>m\<close> from 1.\<close>

definition days_from_civil :: "int \<Rightarrow> int \<Rightarrow> int \<Rightarrow> int" where
  "days_from_civil y m d =
     (let y' = (if m \<le> 2 then y - 1 else y);
          era = y' div 400;
          yoe = y' - era * 400;
          doy = (153 * (m + (if 2 < m then - 3 else 9)) + 2) div 5 + d - 1;
          doe = yoe * 365 + yoe div 4 - yoe div 100 + doy
      in era * 146097 + doe - 719468)"

text \<open>The civil date (year, month from 1, day of the month) of a day number.\<close>

definition civil_from_days :: "int \<Rightarrow> int \<times> int \<times> int" where
  "civil_from_days z =
     (let z' = z + 719468;
          era = z' div 146097;
          doe = z' - era * 146097;
          yoe = (doe - doe div 1460 + doe div 36524 - doe div 146096) div 365;
          y = yoe + era * 400;
          doy = doe - (365 * yoe + yoe div 4 - yoe div 100);
          mp = (5 * doy + 2) div 153;
          d = doy - (153 * mp + 2) div 5 + 1;
          m = (if mp < 10 then mp + 3 else mp - 9)
      in (if m \<le> 2 then y + 1 else y, m, d))"

text \<open>\<^verbatim>\<open>getFullYear\<close>, \<^verbatim>\<open>getMonth\<close> (from 0) and \<^verbatim>\<open>getDate\<close>.\<close>

definition getFullYear :: "js_date \<Rightarrow> int" where
  "getFullYear dt = fst (civil_from_days (day dt))"

definition getMonth :: "js_date \<Rightarrow> int" where
  "getMonth dt = fst (snd (civil_from_days (day dt))) - 1"

definition getDate :: "js_date \<Rightarrow> int" where
  "getDate dt = snd (snd (civil_from_days (day dt)))"

text \<open>
  ECMAScript's \<^verbatim>\<open>MakeDay(year, month, date)\<close>: the month counts from 0 and may lie
  outside 0..11 (it carries into the year), the date may lie outside the month (date 0 is
  the last day of the month before).
\<close>

definition make_day :: "int \<Rightarrow> int \<Rightarrow> int \<Rightarrow> int" where
  "make_day y m d = days_from_civil (y + m div 12) (m mod 12 + 1) 1 + d - 1"

text \<open>\<^verbatim>\<open>getDay\<close>: 0 is Sunday, 1 Monday, ..., 6 Saturday; 1970-01-01 was a Thursday.\<close>

definition getDay :: "js_date \<Rightarrow> int" where
  "getDay dt = (day dt + 4) mod 7"

text \<open>
  date-fns \<^verbatim>\<open>addDays\<close> is \<^verbatim>\<open>setDate(getDate() + amount)\<close>, which asks for the same
  time of day on the new day; \<^verbatim>\<open>addWeeks(d, n)\<close> is \<^verbatim>\<open>addDays(d, n * 7)\<close> and
  \<^verbatim>\<open>subWeeks(d, n)\<close> is \<^verbatim>\<open>addWeeks(d, -n)\<close>.
\<close>

definition addDays :: "time_zone \<Rightarrow> js_date \<Rightarrow> int \<Rightarrow> js_date" where
  "addDays tz dt n = \<lparr>day = day dt + n, ms_of_day = tz (day dt + n) (ms_of_day dt)\<rparr>"

definition addWeeks :: "time_zone \<Rightarrow> js_date \<Rightarrow> int \<Rightarrow> js_date" where
  "addWeeks tz dt n = addDays tz dt (n * 7)"

definition subWeeks :: "time_zone \<Rightarrow> js_date \<Rightarrow> int \<Rightarrow> js_date" where
  "subWeeks tz dt n = addWeeks tz dt (- n)"

text \<open>
  date-fns \<^verbatim>\<open>startOfWeek(d, { weekStartsOn })\<close>:
  \<^verbatim>\<open>diff = (day < weekStartsOn ? 7 : 0) + day - weekStartsOn; setDate(getDate() - diff);
  setHours(0, 0, 0, 0)\<close>.
\<close>

definition startOfWeek :: "time_zone \<Rightarrow> js_date \<Rightarrow> int \<Rightarrow> js_date" where
  "startOfWeek tz dt weekStartsOn =
     (let dow = getDay dt;
          diff = (if dow < weekStartsOn then 7 else 0) + dow - weekStartsOn
      in \<lparr>day = day dt - diff, ms_of_day = tz (day dt - diff) 0\<rparr>)"

text \<open>
  date-fns \<^verbatim>\<open>endOfWeek(d, { weekStartsOn })\<close>:
  \<^verbatim>\<open>diff = (day < weekStartsOn ? -7 : 0) + 6 - (day - weekStartsOn);
  setDate(getDate() + diff); setHours(23, 59, 59, 999)\<close>.
\<close>

definition endOfWeek :: "time_zone \<Rightarrow> js_date \<Rightarrow> int \<Rightarrow> js_date" where
  "endOfWeek tz dt weekStartsOn =
     (let dow = getDay dt;
          diff = (if dow < weekStartsOn then - 7 else 0) + 6 - (dow - weekStartsOn)
      in \<lparr>day = day dt + diff, ms_of_day = tz (day dt + diff) 86399999\<rparr>)"

text \<open>
  date-fns \<^verbatim>\<open>addMonths(d, amount)\<close>: amount 0 returns the date; otherwise the last day
  of the wanted month is \<^verbatim>\<open>setMonth(getMonth() + amount + 1, 0)\<close>, and the result is
  that day when the day of the month does not fit, else the same day of the month in the
  wanted month. Both ask for the time of day of the date on the new day.
\<close>

text \<open>Setting the day of a date (\<^verbatim>\<open>setMonth\<close>, \<^verbatim>\<open>setFullYear\<close>) asks for its time of day on that day.\<close>

definition setDay :: "time_zone \<Rightarrow> js_date \<Rightarrow> int \<Rightarrow> js_date" where
  "setDay tz dt d = \<lparr>day = d, ms_of_day = tz d (ms_of_day dt)\<rparr>"

definition addMonths :: "time_zone \<Rightarrow> js_date \<Rightarrow> int \<Rightarrow> js_date" where
  "addMonths tz dt amount =
     (if amount = 0 then dt
      else
        let dayOfMonth = getDate dt;
            endOfDesiredMonth =
              setDay tz dt (make_day (getFullYear dt) (getMonth dt + amount + 1) 0);
            daysInMonth = getDate endOfDesiredMonth
        in if daysInMonth \<le> dayOfMonth then endOfDesiredMonth
           else setDay tz dt (make_day (getFullYear endOfDesiredMonth)
                                (getMonth endOfDesiredMonth) dayOfMonth))"

subsection \<open>Formatting a date as \<^verbatim>\<open>yyyy-MM-dd\<close>\<close>

definition digit_char :: "nat \<Rightarrow> char" where
  "digit_char n = ''0123456789'' ! (n mod 10)"

fun decimal :: "nat \<Rightarrow> string" where
  "decimal n = (if n < 10 then [digit_char n] else decimal (n div 10) @ [digit_char n])"

declare decimal.simps [simp del]

text \<open>date-fns \<^verbatim>\<open>addLeadingZeros\<close>: the sign, then the absolute value padded with zeros.\<close>

definition addLeadingZeros :: "int \<Rightarrow> nat \<Rightarrow> string" where
  "addLeadingZeros n targetLength =
     (let ds = decimal (nat \<bar>n\<bar>);
          padded = replicate (targetLength - length ds) (CHR ''0'') @ ds
      in (if n < 0 then ''-'' else '''') @ padded)"

text \<open>
  \<^verbatim>\<open>format(d, 'yyyy-MM-dd')\<close>. The token \<^verbatim>\<open>yyyy\<close> prints the year of the era: a year
  \<open>y \<le> 0\<close> prints as \<open>1 - y\<close>.
\<close>

definition format_ymd :: "js_date \<Rightarrow> string" where
  "format_ymd dt =
     (let signedYear = getFullYear dt;
          year = (if 0 < signedYear then signedYear else 1 - signedYear)
      in addLeadingZeros year 4 @ ''-'' @ addLeadingZeros (getMonth dt + 1) 2 @ ''-'' @
         addLeadingZeros (getDate dt) 2)"

subsection \<open>The data of one calendar fetch\<close>

text \<open>
  Strings are lists of characters (code units below 256); \<^verbatim>\<open>===\<close> on strings is
  equality and \<^verbatim>\<open><=\<close> is the lexicographic order on the code units, which is the order
  of \<^typ>\<open>string\<close> with \<^theory_text>\<open>Char_ord\<close> and \<^theory_text>\<open>List_Lexorder\<close>.

  A field that holds an identifier holds an id, \<^verbatim>\<open>null\<close>, or is absent, and then reads
  as \<^verbatim>\<open>undefined\<close>. Strict equality \<^verbatim>\<open>===\<close> on these values is equality of the
  datatype: \<^verbatim>\<open>null\<close> and \<^verbatim>\<open>undefined\<close> are different.
\<close>

datatype js_id = Undefined | Null | Id string

record service =
  s_id :: string
  s_type :: string
  s_date :: string
  s_time :: string
  s_employee_id :: js_id
  s_church_id :: js_id
  s_notes :: "string option"

record absence =
  a_id :: string
  a_type :: string
  a_employee_id :: js_id
  a_start_date :: string
  a_end_date :: string

record employee =
  e_id :: js_id
  e_name :: string
  e_position :: nat

record church =
  c_id :: js_id
  c_name :: string

record calendar_data =
  services :: "service list"
  absences :: "absence list"
  employees :: "employee list"
  churches :: "church list"
  date_range :: "string list"

record type_config =
  t_id :: string
  t_name :: string
  t_color :: string

definition SERVICE_TYPES :: "type_config list" where
  "SERVICE_TYPES =
     [\<lparr>t_id = ''gudstjeneste'', t_name = ''Gudstjeneste'', t_color = ''service-gudstjeneste''\<rparr>,
      \<lparr>t_id = ''vielse'', t_name = ''Vielse'', t_color = ''service-vielse''\<rparr>,
      \<lparr>t_id = ''konsert'', t_name = ''Konsert'', t_color = ''service-konsert''\<rparr>,
      \<lparr>t_id = ''annet'', t_name = ''Annet'', t_color = ''service-annet''\<rparr>,
      \<lparr>t_id = ''vikartjeneste'', t_name = ''Vikartjeneste'', t_color = ''service-vikartjeneste''\<rparr>]"

definition ABSENCE_TYPES :: "type_config list" where
  "ABSENCE_TYPES =
     [\<lparr>t_id = ''frihelg'', t_name = ''Frihelg'', t_color = ''absence-frihelg''\<rparr>,
      \<lparr>t_id = ''avspasering'', t_name = ''Avspasering'', t_color = ''absence-avspasering''\<rparr>,
      \<lparr>t_id = ''sykemelding'', t_name = ''Sykemelding'', t_color = ''absence-sykemelding''\<rparr>,
      \<lparr>t_id = ''ferie'', t_name = ''Ferie'', t_color = ''absence-ferie''\<rparr>]"

subsection \<open>Events of a cell (\<^verbatim>\<open>getEventsForCell\<close>)\<close>

record cell_events =
  cell_services :: "service list"
  cell_absences :: "absence list"

text \<open>
  \<^verbatim>\<open>getEventsForCell = (date, employeeId = null) => ...\<close>: the default value of the
  parameter replaces an argument that is missing or \<^verbatim>\<open>undefined\<close>; both filters
  compare with \<^verbatim>\<open>===\<close>, the dates of an absence with \<^verbatim>\<open><=\<close> and \<^verbatim>\<open>>=\<close> on the
  strings.
\<close>

definition getEventsForCell :: "calendar_data \<Rightarrow> string \<Rightarrow> js_id \<Rightarrow> cell_events" where
  "getEventsForCell data date employeeIdArg =
     (let employeeId = (if employeeIdArg = Undefined then Null else employeeIdArg)
      in \<lparr>cell_services =
            filter (\<lambda>service. s_date service = date \<and> s_employee_id service = employeeId)
              (services data),
          cell_absences =
            filter (\<lambda>absence. a_employee_id absence = employeeId \<and>
                       a_start_date absence \<le> date \<and> date \<le> a_end_date absence)
              (absences data)\<rparr>)"

subsection \<open>Cards and the grid (\<^verbatim>\<open>renderEventCard\<close>, the calendar rows)\<close>

datatype event = ServiceEvent service | AbsenceEvent absence

text \<open>
  What a card shows. A service card has the class, the time, the church line and the
  notes (shown when the string is not empty); an absence card has the class and the name
  of its type, when the type is known.
\<close>

datatype card =
  ServiceCard string string string string "string option"
| AbsenceCard string string "string option"

text \<open>
  The class is \<^verbatim>\<open>`event-card ${TYPES.find(t => t.id === event.type)?.color}`\<close>: a type
  that is not in the table gives \<^verbatim>\<open>undefined\<close>, which the template prints as such.
\<close>

definition baseClass :: "type_config list \<Rightarrow> string \<Rightarrow> string" where
  "baseClass types ty =
     ''event-card '' @
       (case List.find (\<lambda>t. t_id t = ty) types of
          Some t \<Rightarrow> t_color t
        | None \<Rightarrow> ''undefined'')"

text \<open>
  The church line is \<^verbatim>\<open>church?.name || 'Ukjent kirke'\<close> for
  \<^verbatim>\<open>church = calendarData.churches.find(c => c.id === event.church_id)\<close>: the sentinel
  stands for a church that is not found and for an empty name.
\<close>

definition church_line :: "calendar_data \<Rightarrow> service \<Rightarrow> string" where
  "church_line data ev =
     (case List.find (\<lambda>c. c_id c = s_church_id ev) (churches data) of
        None \<Rightarrow> ''Ukjent kirke''
      | Some church \<Rightarrow> (if c_name church = [] then ''Ukjent kirke'' else c_name church))"

fun renderEventCard :: "calendar_data \<Rightarrow> event \<Rightarrow> card" where
  "renderEventCard data (ServiceEvent ev) =
     ServiceCard (s_id ev) (baseClass SERVICE_TYPES (s_type ev)) (s_time ev)
       (church_line data ev)
       (case s_notes ev of None \<Rightarrow> None | Some n \<Rightarrow> (if n = [] then None else Some n))"
| "renderEventCard data (AbsenceEvent ev) =
     AbsenceCard (a_id ev) (baseClass ABSENCE_TYPES (a_type ev))
       (map_option t_name (List.find (\<lambda>t. t_id t = a_type ev) ABSENCE_TYPES))"

text \<open>
  One calendar row: the date, the inbox cell (the services of
  \<^verbatim>\<open>getEventsForCell(date, null)\<close>) and one cell for each employee (the services, then
  the absences, of \<^verbatim>\<open>getEventsForCell(date, employee.id)\<close>). The date cell shows the
  date string after \<^verbatim>\<open>parseISO\<close> and \<^verbatim>\<open>format\<close>, and every cell carries the weekend
  class of the date; the row of the model holds the date string itself. \<^verbatim>\<open>format\<close>
  throws on a string that \<^verbatim>\<open>parseISO\<close> cannot read: the rows are those of fetched data
  whose dates can be read.
\<close>

record grid_row =
  row_date :: string
  inbox_cell :: "card list"
  employee_cells :: "card list list"

definition inboxCell :: "calendar_data \<Rightarrow> string \<Rightarrow> card list" where
  "inboxCell data date =
     map (\<lambda>service. renderEventCard data (ServiceEvent service))
       (cell_services (getEventsForCell data date Null))"

definition employeeCell :: "calendar_data \<Rightarrow> string \<Rightarrow> employee \<Rightarrow> card list" where
  "employeeCell data date employee =
     (let evs = getEventsForCell data date (e_id employee)
      in map (\<lambda>service. renderEventCard data (ServiceEvent service)) (cell_services evs) @
         map (\<lambda>absence. renderEventCard data (AbsenceEvent absence)) (cell_absences evs))"

definition calendarRows :: "calendar_data \<Rightarrow> grid_row list" where
  "calendarRows data =
     map (\<lambda>date. \<lparr>row_date = date,
                  inbox_cell = inboxCell data date,
                  employee_cells = map (employeeCell data date) (employees data)\<rparr>)
       (date_range data)"

subsection \<open>The state of the component\<close>

record date_window =
  w_start :: string
  w_end :: string

text \<open>
  The state cells that the window, the loaded data and the screens depend on.
  \<^verbatim>\<open>error\<close> is \<^verbatim>\<open>null\<close> or a message.
\<close>

record app_state =
  currentDate :: js_date
  dateRange :: date_window
  compactMode :: bool
  calendarData :: calendar_data
  loading :: bool
  error :: "string option"

text \<open>
  What the component shows: the loading screen while \<^verbatim>\<open>loading\<close>, the error screen
  (with the retry button) while \<^verbatim>\<open>error\<close> is a non-empty message, else the grid.
\<close>

datatype view = LoadingView | ErrorView string | GridView "grid_row list"

definition render :: "app_state \<Rightarrow> view" where
  "render st =
     (if loading st then LoadingView
      else case error st of
        None \<Rightarrow> GridView (calendarRows (calendarData st))
      | Some msg \<Rightarrow> (if msg = [] then GridView (calendarRows (calendarData st)) else ErrorView msg))"

subsection \<open>The date window: the effect on \<^verbatim>\<open>currentDate\<close>, quick filters, navigation\<close>

text \<open>
  The effect with dependency \<^verbatim>\<open>[currentDate]\<close> (``Initialize date range''): the local
  values \<^verbatim>\<open>start\<close> and \<^verbatim>\<open>end\<close>, and the state it stores.
\<close>

definition weekRange :: "time_zone \<Rightarrow> js_date \<Rightarrow> js_date \<times> js_date" where
  "weekRange tz anchor =
     (let start = startOfWeek tz anchor 1;
          end' = endOfWeek tz start 1
      in (start, end'))"

definition formatRange :: "js_date \<times> js_date \<Rightarrow> date_window" where
  "formatRange r = \<lparr>w_start = format_ymd (fst r), w_end = format_ymd (snd r)\<rparr>"

definition dateRangeEffect :: "time_zone \<Rightarrow> app_state \<Rightarrow> app_state" where
  "dateRangeEffect tz st = st\<lparr>dateRange := formatRange (weekRange tz (currentDate st))\<rparr>"

text \<open>
  \<^verbatim>\<open>setQuickFilter(type)\<close>: the \<^verbatim>\<open>switch\<close> computes \<^verbatim>\<open>start\<close> and \<^verbatim>\<open>end\<close> from
  \<^verbatim>\<open>today = new Date()\<close> (a parameter here); the default branch returns and changes
  nothing.
\<close>

definition quickFilterRange ::
  "time_zone \<Rightarrow> string \<Rightarrow> js_date \<Rightarrow> (js_date \<times> js_date) option" where
  "quickFilterRange tz type today =
     (let start = startOfWeek tz today 1 in
      if type = ''1week'' then Some (start, endOfWeek tz start 1)
      else if type = ''2weeks'' then Some (start, endOfWeek tz (addWeeks tz start 1) 1)
      else if type = ''3weeks'' then Some (start, endOfWeek tz (addWeeks tz start 2) 1)
      else if type = ''1month'' then Some (start, endOfWeek tz (addMonths tz start 1) 1)
      else if type = ''2months'' then Some (start, endOfWeek tz (addMonths tz start 2) 1)
      else if type = ''3months'' then Some (start, endOfWeek tz (addMonths tz start 3) 1)
      else None)"

definition setQuickFilter :: "time_zone \<Rightarrow> string \<Rightarrow> js_date \<Rightarrow> app_state \<Rightarrow> app_state" where
  "setQuickFilter tz type today st =
     (case quickFilterRange tz type today of
        None \<Rightarrow> st
      | Some r \<Rightarrow> st\<lparr>dateRange := formatRange r, currentDate := fst r\<rparr>)"

text \<open>\<^verbatim>\<open>navigateWeek(direction)\<close>: every direction but \<^verbatim>\<open>'next'\<close> goes back.\<close>

definition navigateWeek :: "time_zone \<Rightarrow> string \<Rightarrow> app_state \<Rightarrow> app_state" where
  "navigateWeek tz direction st =
     st\<lparr>currentDate :=
          (if direction = ''next'' then addWeeks tz (currentDate st) 1
           else subWeeks tz (currentDate st) 1)\<rparr>"

text \<open>
  A navigation as the user sees it: \<^verbatim>\<open>navigateWeek\<close> stores a new \<^verbatim>\<open>currentDate\<close>, and
  the effect on \<^verbatim>\<open>currentDate\<close> recomputes the window.
\<close>

definition navigate :: "time_zone \<Rightarrow> string \<Rightarrow> app_state \<Rightarrow> app_state" where
  "navigate tz direction st = dateRangeEffect tz (navigateWeek tz direction st)"

subsection \<open>Calls of the API\<close>

record fetch_body =
  start_date :: string
  end_date :: string
  compact_mode :: bool

text \<open>
  The requests the component sends through \<^verbatim>\<open>apiCall\<close>: \<^verbatim>\<open>POST /calendar\<close>,
  \<^verbatim>\<open>POST /employees\<close> with a name and a position, \<^verbatim>\<open>PUT /employees/${employeeId}\<close>
  with a name.
\<close>

datatype api_request =
  PostCalendar fetch_body
| PostEmployees string nat
| PutEmployee js_id string

text \<open>
  The outcome of an awaited \<^verbatim>\<open>apiCall\<close>: \<open>Inl\<close> is the message of the error it throws
  (a failed fetch, or a status that is not ok), \<open>Inr\<close> the decoded response.
\<close>

type_synonym 'a api_result = "string + 'a"

text \<open>
  \<^verbatim>\<open>fetchCalendarData\<close>, split at its \<^verbatim>\<open>await\<close>. The first part sets \<^verbatim>\<open>loading\<close> and
  sends the request, whose body is read from the render the function belongs to
  (\<open>r\<close>: a function of a render sees that render's state); the second part runs when
  the call settles, on the state of that moment.
\<close>

definition fetchCalendarData_send :: "app_state \<Rightarrow> app_state \<Rightarrow> app_state \<times> api_request" where
  "fetchCalendarData_send r st =
     (st\<lparr>loading := True\<rparr>,
      PostCalendar \<lparr>start_date = w_start (dateRange r), end_date = w_end (dateRange r),
                    compact_mode = compactMode r\<rparr>)"

definition fetchCalendarData_settle :: "calendar_data api_result \<Rightarrow> app_state \<Rightarrow> app_state" where
  "fetchCalendarData_settle result st =
     (case result of
        Inr data \<Rightarrow> st\<lparr>calendarData := data, error := None, loading := False\<rparr>
      | Inl msg \<Rightarrow> st\<lparr>error := Some (''Feil ved lasting av kalenderdata: '' @ msg),
                       loading := False\<rparr>)"

text \<open>
  The effect with dependencies \<^verbatim>\<open>[dateRange, compactMode]\<close>: it fetches when both ends
  of the window are non-empty strings.
\<close>

definition fetchEffect :: "app_state \<Rightarrow> app_state \<times> api_request list" where
  "fetchEffect st =
     (if w_start (dateRange st) \<noteq> [] \<and> w_end (dateRange st) \<noteq> []
      then (let (st', rq) = fetchCalendarData_send st st in (st', [rq]))
      else (st, []))"

subsection \<open>Employees: \<^verbatim>\<open>addEmployee\<close> and \<^verbatim>\<open>updateEmployeeName\<close>\<close>

text \<open>
  \<^verbatim>\<open>String.prototype.trim\<close> removes the white space and line terminators at both
  ends; among the code units below 256 these are tab, line feed, vertical tab, form
  feed, carriage return, space and no-break space.
\<close>

definition js_whitespace :: "char \<Rightarrow> bool" where
  "js_whitespace c = (of_char c \<in> {9, 10, 11, 12, 13, 32, 160 :: nat})"

definition trim :: "string \<Rightarrow> string" where
  "trim s = rev (dropWhile js_whitespace (rev (dropWhile js_whitespace s)))"

text \<open>
  \<^verbatim>\<open>addEmployee(name)\<close>: it returns at once when the trimmed name is empty. Otherwise
  it sends the creation request, and when that call settles (\<open>result\<close>, on the state
  \<open>st\<close> of that moment) it either starts \<^verbatim>\<open>fetchCalendarData\<close> (inside the
  \<^verbatim>\<open>try\<close>, after the \<^verbatim>\<open>await\<close>) or stores the error (in the \<^verbatim>\<open>catch\<close>). The result is
  the state and the requests sent, in order.
\<close>

definition addEmployee ::
  "app_state \<Rightarrow> string \<Rightarrow> unit api_result \<Rightarrow> app_state \<Rightarrow> app_state \<times> api_request list" where
  "addEmployee r name result st =
     (if trim name = [] then (st, [])
      else
        let command = PostEmployees (trim name) (length (employees (calendarData r)))
        in case result of
             Inr _ \<Rightarrow> (let (st', rq) = fetchCalendarData_send r st in (st', [command, rq]))
           | Inl msg \<Rightarrow>
               (st\<lparr>error := Some (''Feil ved opprettelse av ansatt: '' @ msg)\<rparr>, [command]))"

definition updateEmployeeName ::
  "app_state \<Rightarrow> js_id \<Rightarrow> string \<Rightarrow> unit api_result \<Rightarrow> app_state \<Rightarrow>
     app_state \<times> api_request list" where
  "updateEmployeeName r employeeId newName result st =
     (if trim newName = [] then (st, [])
      else
        let command = PutEmployee employeeId (trim newName)
        in case result of
             Inr _ \<Rightarrow> (let (st', rq) = fetchCalendarData_send r st in (st', [command, rq]))
           | Inl msg \<Rightarrow>
               (st\<lparr>error := Some (''Feil ved oppdatering av ansatt: '' @ msg)\<rparr>, [command]))"

text \<open>
  The key handler of the new-employee input: on \<^verbatim>\<open>Enter\<close> with a value that is not
  blank it calls \<^verbatim>\<open>addEmployee(e.target.value)\<close> and empties the input. The third
  component is the value of the input afterwards.
\<close>

definition newEmployeeKeyPress ::
  "app_state \<Rightarrow> string \<Rightarrow> string \<Rightarrow> unit api_result \<Rightarrow> app_state \<Rightarrow>
     app_state \<times> api_request list \<times> string" where
  "newEmployeeKeyPress r key val result st =
     (if key = ''Enter'' \<and> trim val \<noteq> []
      then (let (st', rqs) = addEmployee r val result st in (st', rqs, []))
      else (st, [], val))"

subsection \<open>Fetches in flight\<close>

text \<open>
  The component and the calendar requests that were sent and have not settled, oldest
  first. \<open>refresh\<close> runs the fetch effect of the current render; \<open>respond\<close> settles the
  \<open>i\<close>-th request in flight with the answer of the back end to its body, with the
  continuation of \<^verbatim>\<open>fetchCalendarData\<close>, which does not look at the request it belongs to.
\<close>

record system =
  app :: app_state
  in_flight :: "fetch_body list"

fun calendar_bodies :: "api_request list \<Rightarrow> fetch_body list" where
  "calendar_bodies [] = []"
| "calendar_bodies (PostCalendar b # rqs) = b # calendar_bodies rqs"
| "calendar_bodies (_ # rqs) = calendar_bodies rqs"

definition refresh :: "system \<Rightarrow> system" where
  "refresh sys =
     (let (st', rqs) = fetchEffect (app sys)
      in \<lparr>app = st', in_flight = in_flight sys @ calendar_bodies rqs\<rparr>)"

definition respond :: "(fetch_body \<Rightarrow> calendar_data api_result) \<Rightarrow> nat \<Rightarrow> system \<Rightarrow> system" where
  "respond backend i sys =
     (if i < length (in_flight sys)
      then \<lparr>app = fetchCalendarData_settle (backend (in_flight sys ! i)) (app sys),
            in_flight = take i (in_flight sys) @ drop (Suc i) (in_flight sys)\<rparr>
      else sys)"

text \<open>A change of the window by the user, followed by the fetch effect it triggers.\<close>

definition navigate_and_fetch :: "time_zone \<Rightarrow> string \<Rightarrow> system \<Rightarrow> system" where
  "navigate_and_fetch tz direction sys =
     refresh (sys\<lparr>app := navigate tz direction (app sys)\<rparr>)"

subsection \<open>Notions of the specification\<close>

text \<open>The day \<open>e\<close> is the Sunday on or after the day \<open>x\<close>.\<close>

definition sunday_on_or_after :: "js_date \<Rightarrow> js_date \<Rightarrow> bool" where
  "sunday_on_or_after x e = (getDay e = 0 \<and> day x \<le> day e \<and> day e < day x + 7)"

text \<open>A name is blank when it is empty or white space only.\<close>

definition blank :: "string \<Rightarrow> bool" where
  "blank s = list_all js_whitespace s"

text \<open>
  A calendar date written as \<^verbatim>\<open>yyyy-MM-dd\<close>, as the dates of the fetched data are, and
  the decimal digits of a number in a fixed width.
\<close>

definition iso_date :: "nat \<Rightarrow> nat \<Rightarrow> nat \<Rightarrow> string" where
  "iso_date y m d =
     addLeadingZeros (int y) 4 @ ''-'' @ addLeadingZeros (int m) 2 @ ''-'' @
     addLeadingZeros (int d) 2"

fun fixed_width :: "nat \<Rightarrow> nat \<Rightarrow> string" where
  "fixed_width 0 n = []"
| "fixed_width (Suc w) n = fixed_width w (n div 10) @ [digit_char n]"

text \<open>The six quick filters of the header.\<close>

definition quick_filters :: "string list" where
  "quick_filters = [''1week'', ''2weeks'', ''3weeks'', ''1month'', ''2months'', ''3months'']"

text \<open>The month presets with their number of months.\<close>

definition month_presets :: "(string \<times> int) list" where
  "month_presets = [(''1month'', 1), (''2months'', 2), (''3months'', 3)]"

subsection \<open>Example data\<close>

text \<open>
  Two employees, one church, the week from Monday 2024-01-01. Service \<open>s2\<close> is in the inbox
  and names a church that is not in the catalogue; service \<open>s3\<close> has no
  \<^verbatim>\<open>employee_id\<close> field; the two absences of Berit overlap.
\<close>

definition demo_s1 :: service where
  "demo_s1 = \<lparr>s_id = ''s1'', s_type = ''gudstjeneste'', s_date = ''2024-01-01'',
     s_time = ''11:00'', s_employee_id = Id ''e1'', s_church_id = Id ''c1'', s_notes = None\<rparr>"

definition demo_s2 :: service where
  "demo_s2 = \<lparr>s_id = ''s2'', s_type = ''vielse'', s_date = ''2024-01-02'',
     s_time = ''13:00'', s_employee_id = Null, s_church_id = Id ''c9'',
     s_notes = Some ''orgel''\<rparr>"

definition demo_s3 :: service where
  "demo_s3 = \<lparr>s_id = ''s3'', s_type = ''konsert'', s_date = ''2024-01-02'',
     s_time = ''18:00'', s_employee_id = Undefined, s_church_id = Id ''c1'', s_notes = None\<rparr>"

definition demo_a1 :: absence where
  "demo_a1 = \<lparr>a_id = ''a1'', a_type = ''ferie'', a_employee_id = Id ''e2'',
     a_start_date = ''2024-01-01'', a_end_date = ''2024-01-03''\<rparr>"

definition demo_a2 :: absence where
  "demo_a2 = \<lparr>a_id = ''a2'', a_type = ''sykemelding'', a_employee_id = Id ''e2'',
     a_start_date = ''2024-01-02'', a_end_date = ''2024-01-05''\<rparr>"

definition demo_data :: calendar_data where
  "demo_data =
     \<lparr>services = [demo_s1, demo_s2, demo_s3],
      absences = [demo_a1, demo_a2],
      employees = [\<lparr>e_id = Id ''e1'', e_name = ''Anne'', e_position = 0\<rparr>,
                   \<lparr>e_id = Id ''e2'', e_name = ''Berit'', e_position = 1\<rparr>],
      churches = [\<lparr>c_id = Id ''c1'', c_name = ''Domkirken''\<rparr>],
      date_range = [''2024-01-01'', ''2024-01-02'', ''2024-01-03'', ''2024-01-04'',
                    ''2024-01-05'', ''2024-01-06'', ''2024-01-07'']\<rparr>"

text \<open>Wednesday 2024-01-03 (day 19725) at noon, showing its week.\<close>

definition demo_state :: app_state where
  "demo_state =
     \<lparr>currentDate = \<lparr>day = 19725, ms_of_day = 43200000\<rparr>,
      dateRange = \<lparr>w_start = ''2024-01-01'', w_end = ''2024-01-07''\<rparr>,
      compactMode = False,
      calendarData = demo_data,
      loading = False,
      error = None\<rparr>"

text \<open>A back end that answers every request with an empty calendar of the two ends asked for.\<close>

definition demo_backend :: "fetch_body \<Rightarrow> calendar_data api_result" where
  "demo_backend b =
     Inr \<lparr>services = [], absences = [], employees = [], churches = [],
          date_range = [start_date b, end_date b]\<rparr>"

text \<open>
  Two navigations to the next week from the example state, each followed by the fetch
  effect: two calendar requests are in flight, for the weeks of 2024-01-08 and 2024-01-15.
\<close>

definition demo_two_refreshes :: system where
  "demo_two_refreshes =
     navigate_and_fetch no_dst ''next''
       (navigate_and_fetch no_dst ''next'' \<lparr>app = demo_state, in_flight = []\<rparr>)"

section \<open>Properties\<close>

subsection \<open>The calendar on known dates\<close>

lemma no_dst_simp [simp]: "no_dst d ms = ms"
  by (simp add: no_dst_def)

text \<open>
  Day 0 is 1970-01-01 and day 19723 is Monday 2024-01-01; 2024 and 2000 are leap years,
  1900 is not; 2024-01-06 is a Saturday; one month after 2024-01-31 is 2024-02-29.
\<close>

lemma epoch_day: "civil_from_days 0 = (1970, 1, 1)"
  by code_simp

lemma day_of_2024_01_01: "days_from_civil 2024 1 1 = 19723"
  by code_simp

lemma leap_day_2024: "civil_from_days 19782 = (2024, 2, 29)"
  by code_simp

lemma weekend_days:
  "getDay \<lparr>day = 19728, ms_of_day = 0\<rparr> = 6"
  "getDay \<lparr>day = 19729, ms_of_day = 0\<rparr> = 0"
  "getDay \<lparr>day = 19730, ms_of_day = 0\<rparr> = 1"
  by (simp_all add: getDay_def)

lemma addMonths_clamps:
  "addMonths no_dst \<lparr>day = 19753, ms_of_day = 0\<rparr> 1 = \<lparr>day = 19782, ms_of_day = 0\<rparr>"
  by code_simp

lemma century_years:
  "days_from_civil 2000 3 1 - days_from_civil 2000 2 1 = 29"
  "days_from_civil 1900 3 1 - days_from_civil 1900 2 1 = 28"
  by code_simp+

subsection \<open>Weeks\<close>

lemma mod7_cancel: "((a::int) - a mod 7 + c) mod 7 = c mod 7"
  by (simp add: minus_mod_eq_mult_div)

lemma getDay_startOfWeek: "getDay (startOfWeek tz dt 1) = 1"
proof -
  let ?a = "day dt + 4"
  let ?c = "if ?a mod 7 < 1 then - 6 else (1::int)"
  have "day (startOfWeek tz dt 1) + 4 = ?a - ?a mod 7 + ?c"
    by (simp add: startOfWeek_def getDay_def Let_def)
  then have "getDay (startOfWeek tz dt 1) = (?a - ?a mod 7 + ?c) mod 7"
    unfolding getDay_def by (rule arg_cong)
  also have "\<dots> = ?c mod 7" by (rule mod7_cancel)
  also have "\<dots> = 1" by simp
  finally show ?thesis .
qed

lemma getDay_endOfWeek: "getDay (endOfWeek tz dt 1) = 0"
proof -
  let ?a = "day dt + 4"
  let ?c = "if ?a mod 7 < 1 then 0 else (7::int)"
  have "day (endOfWeek tz dt 1) + 4 = ?a - ?a mod 7 + ?c"
    by (simp add: endOfWeek_def getDay_def Let_def)
  then have "getDay (endOfWeek tz dt 1) = (?a - ?a mod 7 + ?c) mod 7"
    unfolding getDay_def by (rule arg_cong)
  also have "\<dots> = ?c mod 7" by (rule mod7_cancel)
  also have "\<dots> = 0" by simp
  finally show ?thesis .
qed

lemma getDay_bounds: "0 \<le> getDay dt" "getDay dt < 7"
  by (simp_all add: getDay_def)

lemma day_startOfWeek: "day (startOfWeek tz dt 1) \<le> day dt \<and> day dt < day (startOfWeek tz dt 1) + 7"
  using getDay_bounds [of dt] by (simp add: startOfWeek_def Let_def)

lemma day_endOfWeek: "day dt \<le> day (endOfWeek tz dt 1) \<and> day (endOfWeek tz dt 1) < day dt + 7"
  using getDay_bounds [of dt] by (simp add: endOfWeek_def Let_def)

lemma endOfWeek_of_monday: "getDay dt = 1 \<Longrightarrow> day (endOfWeek tz dt 1) = day dt + 6"
  by (simp add: endOfWeek_def Let_def)


lemma day_addWeeks [simp]: "day (addWeeks tz dt n) = day dt + n * 7"
  by (simp add: addWeeks_def addDays_def)

lemma day_subWeeks [simp]: "day (subWeeks tz dt n) = day dt - n * 7"
  by (simp add: subWeeks_def)

lemma weekRange_day: "day a = day b \<Longrightarrow> weekRange tz a = weekRange tz b"
  by (simp add: weekRange_def startOfWeek_def getDay_def)

lemma day_startOfWeek_shift:
  "day (startOfWeek tz b 1) = day (startOfWeek tz a 1) + (day b - day a)"
  if "day b = day a + 7 \<or> day b = day a - 7"
proof -
  have "(day b + 4) mod 7 = (day a + 4) mod 7"
  proof -
    from that have "day b + 4 = (day a + 4) + 7 \<or> day b + 4 = (day a + 4) - 7" by auto
    then show ?thesis
    proof
      assume e: "day b + 4 = (day a + 4) + 7"
      show ?thesis by (simp only: e mod_add_self2)
    next
      assume e: "day b + 4 = (day a + 4) - 7"
      show ?thesis by (simp only: e minus_mod_self2)
    qed
  qed
  then show ?thesis by (simp add: startOfWeek_def getDay_def Let_def)
qed

subsection \<open>Evaluation on the example dates\<close>

lemma format_ymd_day:
  "format_ymd \<lparr>day = d, ms_of_day = m\<rparr> = format_ymd \<lparr>day = d, ms_of_day = 0\<rparr>"
  by (simp add: format_ymd_def getFullYear_def getMonth_def getDate_def)

lemma format_2024_01_01: "format_ymd \<lparr>day = 19723, ms_of_day = m\<rparr> = ''2024-01-01''"
proof -
  have "format_ymd \<lparr>day = 19723, ms_of_day = 0\<rparr> = ''2024-01-01''" by code_simp
  then show ?thesis by (simp only: format_ymd_day [of _ m])
qed

lemma format_2024_01_07: "format_ymd \<lparr>day = 19729, ms_of_day = m\<rparr> = ''2024-01-07''"
proof -
  have "format_ymd \<lparr>day = 19729, ms_of_day = 0\<rparr> = ''2024-01-07''" by code_simp
  then show ?thesis by (simp only: format_ymd_day [of _ m])
qed

lemma format_2024_01_14: "format_ymd \<lparr>day = 19736, ms_of_day = m\<rparr> = ''2024-01-14''"
proof -
  have "format_ymd \<lparr>day = 19736, ms_of_day = 0\<rparr> = ''2024-01-14''" by code_simp
  then show ?thesis by (simp only: format_ymd_day [of _ m])
qed

lemma demo_weekRange:
  "weekRange no_dst \<lparr>day = 19725, ms_of_day = 43200000\<rparr> =
     (\<lparr>day = 19723, ms_of_day = 0\<rparr>, \<lparr>day = 19729, ms_of_day = 86399999\<rparr>)"
  by (simp add: weekRange_def startOfWeek_def endOfWeek_def getDay_def)

lemma demo_window: "formatRange (weekRange no_dst (currentDate demo_state)) = dateRange demo_state"
  by (simp add: demo_state_def demo_weekRange formatRange_def format_2024_01_01 format_2024_01_07)

subsection \<open>The week window of an anchor date\<close>

text \<open>
  Claim C6. For every anchor date \<open>A\<close>, whatever its weekday, the window that the effect
  on \<^verbatim>\<open>currentDate\<close> computes from \<open>A\<close> starts on a Monday, ends on a Sunday, and its end
  is exactly 6 days after its start. The window contains the anchor, and the state
  stores the two days formatted as \<^verbatim>\<open>yyyy-MM-dd\<close>.
\<close>

theorem week_window_aligned:
  "getDay (fst (weekRange tz A)) = 1 \<and>
   getDay (snd (weekRange tz A)) = 0 \<and>
   day (snd (weekRange tz A)) - day (fst (weekRange tz A)) = 6 \<and>
   day (fst (weekRange tz A)) \<le> day A \<and> day A \<le> day (snd (weekRange tz A)) \<and>
   dateRange (dateRangeEffect tz (st\<lparr>currentDate := A\<rparr>)) = formatRange (weekRange tz A)"
proof -
  let ?s = "startOfWeek tz A 1"
  have mon: "getDay ?s = 1" by (rule getDay_startOfWeek)
  have six: "day (endOfWeek tz ?s 1) = day ?s + 6" using mon by (rule endOfWeek_of_monday)
  have sun: "getDay (endOfWeek tz ?s 1) = 0" by (rule getDay_endOfWeek)
  have inside: "day ?s \<le> day A \<and> day A < day ?s + 7" by (rule day_startOfWeek)
  show ?thesis
    using mon six sun inside by (simp add: weekRange_def Let_def dateRangeEffect_def)
qed

text \<open>The week of Wednesday 2024-01-03 runs from Monday 2024-01-01 to Sunday 2024-01-07.\<close>

theorem week_window_aligned_witness:
  "weekRange no_dst \<lparr>day = 19725, ms_of_day = 43200000\<rparr> =
     (\<lparr>day = 19723, ms_of_day = 0\<rparr>, \<lparr>day = 19729, ms_of_day = 86399999\<rparr>) \<and>
   getDay \<lparr>day = 19723, ms_of_day = 0\<rparr> = 1 \<and>
   getDay \<lparr>day = 19729, ms_of_day = 86399999\<rparr> = 0 \<and>
   dateRange (dateRangeEffect no_dst demo_state) = \<lparr>w_start = ''2024-01-01'', w_end = ''2024-01-07''\<rparr>"
  using week_window_aligned [of no_dst "\<lparr>day = 19725, ms_of_day = 43200000\<rparr>" demo_state]
  by (simp add: demo_weekRange dateRangeEffect_def demo_state_def formatRange_def
      format_2024_01_01 format_2024_01_07)

subsection \<open>Navigation\<close>

text \<open>
  The window of a state is the week window of its anchor once the effect on
  \<^verbatim>\<open>currentDate\<close> has run. The effect runs after every handler that stores a
  \<^verbatim>\<open>currentDate\<close> (\<^verbatim>\<open>navigateWeek\<close> and \<^verbatim>\<open>setQuickFilter\<close> store a new \<^verbatim>\<open>Date\<close> object), and
  the other steps of the component leave the anchor and the window alone; so this holds
  of every state in which a navigation button can be pressed.
\<close>

lemma effect_window:
  "dateRange (dateRangeEffect tz st) =
   formatRange (weekRange tz (currentDate (dateRangeEffect tz st)))"
  by (simp add: dateRangeEffect_def)

lemma other_steps_keep_window:
  "currentDate (fst (fetchCalendarData_send r st)) = currentDate st"
  "dateRange (fst (fetchCalendarData_send r st)) = dateRange st"
  "currentDate (fetchCalendarData_settle result st) = currentDate st"
  "dateRange (fetchCalendarData_settle result st) = dateRange st"
  "currentDate (fst (addEmployee r name outcome st)) = currentDate st"
  "dateRange (fst (addEmployee r name outcome st)) = dateRange st"
  "currentDate (fst (updateEmployeeName r employeeId name outcome st)) = currentDate st"
  "dateRange (fst (updateEmployeeName r employeeId name outcome st)) = dateRange st"
  by (simp_all add: fetchCalendarData_send_def fetchCalendarData_settle_def addEmployee_def
      updateEmployeeName_def Let_def split: sum.splits)

text \<open>
  Claim C9. For every state whose window is the week window of its anchor, navigating to
  the next week and then to the previous week returns the original window, and the
  anchor is on its original calendar day. Each navigation moves the anchor by exactly 7
  days, forward for next and back for prev, and the effect recomputes the window from
  the moved anchor: the new window is the week window of the new anchor, and it starts 7
  days after or before the old one.
\<close>

theorem navigate_round_trip:
  assumes "dateRange st = formatRange (weekRange tz (currentDate st))"
  shows "dateRange (navigate tz ''prev'' (navigate tz ''next'' st)) = dateRange st \<and>
         day (currentDate (navigate tz ''prev'' (navigate tz ''next'' st))) = day (currentDate st) \<and>
         day (currentDate (navigate tz ''next'' st)) = day (currentDate st) + 7 \<and>
         day (currentDate (navigate tz ''prev'' st)) = day (currentDate st) - 7 \<and>
         dateRange (navigate tz ''next'' st) =
           formatRange (weekRange tz (currentDate (navigate tz ''next'' st))) \<and>
         dateRange (navigate tz ''prev'' st) =
           formatRange (weekRange tz (currentDate (navigate tz ''prev'' st))) \<and>
         day (fst (weekRange tz (currentDate (navigate tz ''next'' st)))) =
           day (fst (weekRange tz (currentDate st))) + 7 \<and>
         day (fst (weekRange tz (currentDate (navigate tz ''prev'' st)))) =
           day (fst (weekRange tz (currentDate st))) - 7"
proof -
  let ?next = "navigate tz ''next'' st"
  let ?round = "navigate tz ''prev'' ?next"
  have next_day: "day (currentDate ?next) = day (currentDate st) + 7"
    by (simp add: navigate_def navigateWeek_def dateRangeEffect_def)
  have prev_day: "day (currentDate (navigate tz ''prev'' st)) = day (currentDate st) - 7"
    by (simp add: navigate_def navigateWeek_def dateRangeEffect_def)
  have round_day: "day (currentDate ?round) = day (currentDate st)"
    by (simp add: navigate_def navigateWeek_def dateRangeEffect_def)
  have next_window: "dateRange ?next = formatRange (weekRange tz (currentDate ?next))"
    by (simp add: navigate_def dateRangeEffect_def)
  have prev_window: "dateRange (navigate tz ''prev'' st) =
      formatRange (weekRange tz (currentDate (navigate tz ''prev'' st)))"
    by (simp add: navigate_def dateRangeEffect_def)
  have "dateRange ?round = formatRange (weekRange tz (currentDate ?round))"
    by (simp add: navigate_def dateRangeEffect_def)
  also have "weekRange tz (currentDate ?round) = weekRange tz (currentDate st)"
    using round_day by (rule weekRange_day)
  finally have round_window: "dateRange ?round = dateRange st"
    using assms by simp
  have next_start: "day (fst (weekRange tz (currentDate ?next))) =
      day (fst (weekRange tz (currentDate st))) + 7"
    using day_startOfWeek_shift [of "currentDate ?next" "currentDate st" tz] next_day
    by (simp add: weekRange_def Let_def)
  have prev_start: "day (fst (weekRange tz (currentDate (navigate tz ''prev'' st)))) =
      day (fst (weekRange tz (currentDate st))) - 7"
    using day_startOfWeek_shift [of "currentDate (navigate tz ''prev'' st)" "currentDate st" tz]
      prev_day
    by (simp add: weekRange_def Let_def)
  show ?thesis
    using round_window round_day next_day prev_day next_window prev_window next_start prev_start
    by blast
qed

lemma demo_next_week:
  "weekRange no_dst \<lparr>day = 19732, ms_of_day = 43200000\<rparr> =
     (\<lparr>day = 19730, ms_of_day = 0\<rparr>, \<lparr>day = 19736, ms_of_day = 86399999\<rparr>)"
  by (simp add: weekRange_def startOfWeek_def endOfWeek_def getDay_def)

lemma format_2024_01_08: "format_ymd \<lparr>day = 19730, ms_of_day = m\<rparr> = ''2024-01-08''"
proof -
  have "format_ymd \<lparr>day = 19730, ms_of_day = 0\<rparr> = ''2024-01-08''" by code_simp
  then show ?thesis by (simp only: format_ymd_day [of _ m])
qed

text \<open>
  From the week of Wednesday 2024-01-03, next shows the week from 2024-01-08 to
  2024-01-14, and prev after it shows the week from 2024-01-01 to 2024-01-07 again.
\<close>

theorem navigate_round_trip_witness:
  "dateRange demo_state = formatRange (weekRange no_dst (currentDate demo_state)) \<and>
   dateRange demo_state = \<lparr>w_start = ''2024-01-01'', w_end = ''2024-01-07''\<rparr> \<and>
   dateRange (navigate no_dst ''next'' demo_state) =
     \<lparr>w_start = ''2024-01-08'', w_end = ''2024-01-14''\<rparr> \<and>
   dateRange (navigate no_dst ''prev'' (navigate no_dst ''next'' demo_state)) =
     \<lparr>w_start = ''2024-01-01'', w_end = ''2024-01-07''\<rparr>"
proof -
  have inv: "dateRange demo_state = formatRange (weekRange no_dst (currentDate demo_state))"
    by (simp add: demo_window)
  have now: "dateRange demo_state = \<lparr>w_start = ''2024-01-01'', w_end = ''2024-01-07''\<rparr>"
    by (simp add: demo_state_def)
  have moved: "currentDate (navigate no_dst ''next'' demo_state) =
      \<lparr>day = 19732, ms_of_day = 43200000\<rparr>"
    by (simp add: navigate_def navigateWeek_def dateRangeEffect_def addWeeks_def addDays_def
        demo_state_def)
  have nxt: "dateRange (navigate no_dst ''next'' demo_state) =
      \<lparr>w_start = ''2024-01-08'', w_end = ''2024-01-14''\<rparr>"
    using navigate_round_trip [OF inv]
    by (simp add: moved demo_next_week formatRange_def format_2024_01_08 format_2024_01_14)
  show ?thesis
    using inv now nxt navigate_round_trip [OF inv] by simp
qed

text \<open>
  The time of day of the anchor is not always restored. In Europe/Oslo, from Sunday
  2024-03-24 at 02:30, next asks for 02:30 on 2024-03-31, which the change to summer time
  skips, and gives 03:30; prev then gives 2024-03-24 at 03:30. The day of the anchor and
  the window are restored.
\<close>

lemma oslo_anchor_time:
  "currentDate (navigate oslo_2024 ''prev'' (navigate oslo_2024 ''next''
      (demo_state\<lparr>currentDate := \<lparr>day = 19806, ms_of_day = 9000000\<rparr>\<rparr>))) =
   \<lparr>day = 19806, ms_of_day = 12600000\<rparr>"
  by (simp add: navigate_def navigateWeek_def dateRangeEffect_def addWeeks_def subWeeks_def
      addDays_def oslo_2024_def)

subsection \<open>Quick filters\<close>

lemma sunday_start: "startOfWeek no_dst \<lparr>day = 19792, ms_of_day = 0\<rparr> 1 = \<lparr>day = 19786, ms_of_day = 0\<rparr>"
  by (simp add: startOfWeek_def getDay_def)

lemma month_after_start: "addMonths no_dst \<lparr>day = 19786, ms_of_day = 0\<rparr> 1 = \<lparr>day = 19817, ms_of_day = 0\<rparr>"
  by code_simp

lemma month_after_today: "addMonths no_dst \<lparr>day = 19792, ms_of_day = 0\<rparr> 1 = \<lparr>day = 19823, ms_of_day = 0\<rparr>"
  by code_simp

lemma sunday_after_month: "endOfWeek no_dst \<lparr>day = 19817, ms_of_day = 0\<rparr> 1 = \<lparr>day = 19820, ms_of_day = 86399999\<rparr>"
  by (simp add: endOfWeek_def getDay_def)

lemma demo_one_month:
  "quickFilterRange no_dst ''1month'' \<lparr>day = 19792, ms_of_day = 0\<rparr> =
     Some (\<lparr>day = 19786, ms_of_day = 0\<rparr>, \<lparr>day = 19820, ms_of_day = 86399999\<rparr>)"
  by (simp add: quickFilterRange_def Let_def sunday_start month_after_start sunday_after_month)

lemma format_2024_03_04: "format_ymd \<lparr>day = 19786, ms_of_day = m\<rparr> = ''2024-03-04''"
proof -
  have "format_ymd \<lparr>day = 19786, ms_of_day = 0\<rparr> = ''2024-03-04''" by code_simp
  then show ?thesis by (simp only: format_ymd_day [of _ m])
qed

lemma format_2024_04_07: "format_ymd \<lparr>day = 19820, ms_of_day = m\<rparr> = ''2024-04-07''"
proof -
  have "format_ymd \<lparr>day = 19820, ms_of_day = 0\<rparr> = ''2024-04-07''" by code_simp
  then show ?thesis by (simp only: format_ymd_day [of _ m])
qed

lemma format_2024_04_10: "format_ymd \<lparr>day = 19823, ms_of_day = m\<rparr> = ''2024-04-10''"
proof -
  have "format_ymd \<lparr>day = 19823, ms_of_day = 0\<rparr> = ''2024-04-10''" by code_simp
  then show ?thesis by (simp only: format_ymd_day [of _ m])
qed

lemma format_2024_04_04: "format_ymd \<lparr>day = 19817, ms_of_day = m\<rparr> = ''2024-04-04''"
proof -
  have "format_ymd \<lparr>day = 19817, ms_of_day = 0\<rparr> = ''2024-04-04''" by code_simp
  then show ?thesis by (simp only: format_ymd_day [of _ m])
qed

text \<open>
  Claim C2, as amended. For every quick filter, the window that \<^verbatim>\<open>setQuickFilter\<close>
  stores starts at the Monday of the week of today, which also becomes the anchor, and
  ends on a Sunday; for the month presets with \<open>n = 1, 2, 3\<close> it ends on the Sunday on or
  after the start of the window plus \<open>n\<close> calendar months.
\<close>

theorem quick_filter_window:
  assumes "kind \<in> set quick_filters"
  shows "\<exists>e. quickFilterRange tz kind today = Some (startOfWeek tz today 1, e) \<and>
           dateRange (setQuickFilter tz kind today st) = formatRange (startOfWeek tz today 1, e) \<and>
           currentDate (setQuickFilter tz kind today st) = startOfWeek tz today 1 \<and>
           getDay e = 0 \<and>
           (\<forall>n. (kind, n) \<in> set month_presets \<longrightarrow>
                sunday_on_or_after (addMonths tz (startOfWeek tz today 1) n) e)"
proof -
  have "kind = ''1week'' \<or> kind = ''2weeks'' \<or> kind = ''3weeks'' \<or>
        kind = ''1month'' \<or> kind = ''2months'' \<or> kind = ''3months''"
    using assms by (simp add: quick_filters_def)
  then show ?thesis
    by (elim disjE)
      (simp_all add: quickFilterRange_def Let_def setQuickFilter_def month_presets_def
         sunday_on_or_after_def getDay_endOfWeek day_endOfWeek)
qed

text \<open>
  On Sunday 2024-03-10 the filter \<^verbatim>\<open>1month\<close> gives the window from Monday 2024-03-04 to
  Sunday 2024-04-07, the Sunday on or after 2024-04-04.
\<close>

theorem quick_filter_window_witness:
  "''1month'' \<in> set quick_filters \<and>
   (''1month'', 1) \<in> set month_presets \<and>
   quickFilterRange no_dst ''1month'' \<lparr>day = 19792, ms_of_day = 0\<rparr> =
     Some (\<lparr>day = 19786, ms_of_day = 0\<rparr>, \<lparr>day = 19820, ms_of_day = 86399999\<rparr>) \<and>
   dateRange (setQuickFilter no_dst ''1month'' \<lparr>day = 19792, ms_of_day = 0\<rparr> demo_state) =
     \<lparr>w_start = ''2024-03-04'', w_end = ''2024-04-07''\<rparr> \<and>
   sunday_on_or_after (addMonths no_dst \<lparr>day = 19786, ms_of_day = 0\<rparr> 1)
     \<lparr>day = 19820, ms_of_day = 86399999\<rparr>"
  using quick_filter_window [of "''1month''" no_dst "\<lparr>day = 19792, ms_of_day = 0\<rparr>" demo_state]
  by (simp add: quick_filters_def month_presets_def demo_one_month sunday_start formatRange_def
      format_2024_03_04 format_2024_04_07)

text \<open>
  The claim as stated measures the months from today. On Sunday 2024-03-10 today plus one
  month is 2024-04-10, and the window of \<^verbatim>\<open>1month\<close> ends before it, on 2024-04-07.
\<close>

theorem quick_filter_window_counterexample:
  "quickFilterRange no_dst ''1month'' \<lparr>day = 19792, ms_of_day = 0\<rparr> =
     Some (\<lparr>day = 19786, ms_of_day = 0\<rparr>, \<lparr>day = 19820, ms_of_day = 86399999\<rparr>) \<and>
   addMonths no_dst \<lparr>day = 19792, ms_of_day = 0\<rparr> 1 = \<lparr>day = 19823, ms_of_day = 0\<rparr> \<and>
   \<not> sunday_on_or_after (addMonths no_dst \<lparr>day = 19792, ms_of_day = 0\<rparr> 1)
       \<lparr>day = 19820, ms_of_day = 86399999\<rparr> \<and>
   format_ymd \<lparr>day = 19792, ms_of_day = 0\<rparr> = ''2024-03-10'' \<and>
   format_ymd \<lparr>day = 19820, ms_of_day = 86399999\<rparr> = ''2024-04-07'' \<and>
   format_ymd \<lparr>day = 19823, ms_of_day = 0\<rparr> = ''2024-04-10''"
proof -
  have "format_ymd \<lparr>day = 19792, ms_of_day = 0\<rparr> = ''2024-03-10''" by code_simp
  then show ?thesis
    by (simp add: demo_one_month month_after_today sunday_on_or_after_def
        format_2024_04_07 format_2024_04_10)
qed

text \<open>
  \<^verbatim>\<open>setQuickFilter\<close> also stores a new \<^verbatim>\<open>currentDate\<close>. When the effect on
  \<^verbatim>\<open>currentDate\<close> runs on the state it leaves, the window becomes the one-week window of
  the new anchor.
\<close>

lemma quick_filter_then_effect:
  assumes "kind \<in> set quick_filters"
  shows "dateRange (dateRangeEffect tz (setQuickFilter tz kind today st)) =
         formatRange (weekRange tz (startOfWeek tz today 1))"
proof -
  have "kind = ''1week'' \<or> kind = ''2weeks'' \<or> kind = ''3weeks'' \<or>
        kind = ''1month'' \<or> kind = ''2months'' \<or> kind = ''3months''"
    using assms by (simp add: quick_filters_def)
  then show ?thesis
    by (elim disjE)
      (simp_all add: quickFilterRange_def Let_def setQuickFilter_def dateRangeEffect_def)
qed

subsection \<open>The order of date strings\<close>

text \<open>
  The cells compare dates as strings. For dates written as \<^verbatim>\<open>yyyy-MM-dd\<close> (years below
  10000) the order of the strings is the order of the dates, and \<^verbatim>\<open>format\<close> writes the
  dates of the window in this form.
\<close>

lemma of_char_digits:
  "list_all (\<lambda>n. of_char (digit_char n) = (48 + n :: nat)) [0..<10]"
  by code_simp

lemma of_char_digit:
  assumes "n < 10"
  shows "of_char (digit_char n) = (48 + n :: nat)"
proof -
  have "n \<in> set [0..<10]" using assms by simp
  with of_char_digits show ?thesis unfolding list_all_iff by blast
qed

lemma digit_char_mod: "digit_char (n mod 10) = digit_char n"
  by (simp add: digit_char_def)

lemma digit_char_less: "(digit_char a < digit_char b) = (a mod 10 < b mod 10)"
proof -
  have "(digit_char (a mod 10) < digit_char (b mod 10)) = (a mod 10 < b mod 10)"
    by (simp add: less_char_def of_char_digit)
  then show ?thesis by (simp only: digit_char_mod)
qed

lemma digit_char_eq: "(digit_char a = digit_char b) = (a mod 10 = b mod 10)"
proof
  assume "digit_char a = digit_char b"
  then have "digit_char (a mod 10) = digit_char (b mod 10)" by (simp only: digit_char_mod)
  then have "(of_char (digit_char (a mod 10)) :: nat) = of_char (digit_char (b mod 10))" by simp
  then show "a mod 10 = b mod 10" by (simp add: of_char_digit)
next
  assume "a mod 10 = b mod 10"
  then have "digit_char (a mod 10) = digit_char (b mod 10)" by simp
  then show "digit_char a = digit_char b" by (simp only: digit_char_mod)
qed

lemma length_fixed_width [simp]: "length (fixed_width w n) = w"
  by (induction w arbitrary: n) simp_all

lemma append_less_same_length:
  "length xs = length ys \<Longrightarrow>
   (xs @ us < ys @ vs) = (xs < ys \<or> xs = ys \<and> us < (vs :: 'a :: linorder list))"
  by (induction xs ys rule: list_induct2) auto

lemma append_le_same_length:
  "length xs = length ys \<Longrightarrow>
   (xs @ us \<le> ys @ vs) = (xs < ys \<or> xs = ys \<and> us \<le> (vs :: 'a :: linorder list))"
  by (auto simp add: le_less append_less_same_length)

lemma fixed_width_eq:
  "n < 10 ^ w \<Longrightarrow> n' < 10 ^ w \<Longrightarrow> (fixed_width w n = fixed_width w n') = (n = n')"
proof (induction w arbitrary: n n')
  case 0
  then show ?case by simp
next
  case (Suc w)
  have "n div 10 < 10 ^ w" "n' div 10 < 10 ^ w"
    using Suc.prems by (simp_all add: less_mult_imp_div_less mult.commute)
  then have "(fixed_width w (n div 10) = fixed_width w (n' div 10)) = (n div 10 = n' div 10)"
    by (rule Suc.IH)
  moreover have "(n = n') = (n div 10 = n' div 10 \<and> n mod 10 = n' mod 10)"
    by (metis div_mult_mod_eq)
  ultimately show ?case by (simp add: digit_char_eq)
qed

lemma fixed_width_less:
  "n < 10 ^ w \<Longrightarrow> n' < 10 ^ w \<Longrightarrow> (fixed_width w n < fixed_width w n') = (n < n')"
proof (induction w arbitrary: n n')
  case 0
  then show ?case by simp
next
  case (Suc w)
  have small: "n div 10 < 10 ^ w" "n' div 10 < 10 ^ w"
    using Suc.prems by (simp_all add: less_mult_imp_div_less mult.commute)
  have less: "(fixed_width w (n div 10) < fixed_width w (n' div 10)) = (n div 10 < n' div 10)"
    using small by (rule Suc.IH)
  have eq: "(fixed_width w (n div 10) = fixed_width w (n' div 10)) = (n div 10 = n' div 10)"
    using small by (rule fixed_width_eq)
  have "(n < n') = (n div 10 < n' div 10 \<or> n div 10 = n' div 10 \<and> n mod 10 < n' mod 10)"
  proof -
    have "n = 10 * (n div 10) + n mod 10" "n' = 10 * (n' div 10) + n' mod 10" by simp_all
    moreover have "n mod 10 < 10" "n' mod 10 < 10" by simp_all
    ultimately show ?thesis by linarith
  qed
  then show ?case
    by (simp add: append_less_same_length less eq digit_char_less)
qed

lemma fixed_width_zero: "fixed_width w 0 = replicate w CHR ''0''"
  by (induction w) (simp_all add: digit_char_def replicate_append_same)

lemma length_decimal_pos: "0 < length (decimal n)"
  by (subst decimal.simps) simp

lemma padded_decimal:
  "n < 10 ^ Suc w \<Longrightarrow>
   replicate (Suc w - length (decimal n)) CHR ''0'' @ decimal n = fixed_width (Suc w) n"
proof (induction w arbitrary: n)
  case 0
  then have "n < 10" by simp
  then show ?case by (simp add: decimal.simps [of n])
next
  case (Suc w)
  show ?case
  proof (cases "n < 10")
    case True
    then have "n div 10 = 0" by simp
    then show ?thesis
      using True by (simp add: decimal.simps [of n] fixed_width_zero replicate_append_same)
  next
    case False
    have "n div 10 < 10 ^ Suc w"
      using Suc.prems by (simp add: less_mult_imp_div_less mult.commute)
    then have IH: "replicate (Suc w - length (decimal (n div 10))) CHR ''0'' @ decimal (n div 10) =
        fixed_width (Suc w) (n div 10)"
      by (rule Suc.IH)
    have "decimal n = decimal (n div 10) @ [digit_char n]"
      using False by (simp add: decimal.simps [of n])
    then have "replicate (Suc (Suc w) - length (decimal n)) CHR ''0'' @ decimal n =
        (replicate (Suc w - length (decimal (n div 10))) CHR ''0'' @ decimal (n div 10)) @
        [digit_char n]"
      by simp
    also have "\<dots> = fixed_width (Suc w) (n div 10) @ [digit_char n]"
      by (simp only: IH)
    finally show ?thesis by simp
  qed
qed

lemma addLeadingZeros_fixed_width:
  "0 < w \<Longrightarrow> n < 10 ^ w \<Longrightarrow> addLeadingZeros (int n) w = fixed_width w n"
proof -
  assume "0 < w" and small: "n < 10 ^ w"
  then obtain v where w: "w = Suc v" by (cases w) simp_all
  show ?thesis
    using small padded_decimal [of n v] unfolding w
    by (simp add: addLeadingZeros_def Let_def)
qed

lemma iso_date_fixed_width:
  assumes "y < 10000" and "m < 100" and "d < 100"
  shows "iso_date y m d = fixed_width 4 y @ ''-'' @ fixed_width 2 m @ ''-'' @ fixed_width 2 d"
  using assms by (simp add: iso_date_def addLeadingZeros_fixed_width del: fixed_width.simps)

lemma iso_date_le:
  assumes "y < 10000" and "m < 100" and "d < 100"
    and "y' < 10000" and "m' < 100" and "d' < 100"
  shows "(iso_date y m d \<le> iso_date y' m' d') =
         (y < y' \<or> y = y' \<and> (m < m' \<or> m = m' \<and> d \<le> d'))"
proof -
  have y: "(fixed_width 4 y < fixed_width 4 y') = (y < y')"
    "(fixed_width 4 y = fixed_width 4 y') = (y = y')"
    using assms by (simp_all add: fixed_width_less fixed_width_eq del: fixed_width.simps)
  have m: "(fixed_width 2 m < fixed_width 2 m') = (m < m')"
    "(fixed_width 2 m = fixed_width 2 m') = (m = m')"
    using assms by (simp_all add: fixed_width_less fixed_width_eq del: fixed_width.simps)
  have d: "(fixed_width 2 d \<le> fixed_width 2 d') = (d \<le> d')"
    using assms
    by (simp add: le_less fixed_width_less fixed_width_eq del: fixed_width.simps)
  have tail: "(fixed_width 2 m @ ''-'' @ fixed_width 2 d \<le> fixed_width 2 m' @ ''-'' @ fixed_width 2 d') =
      (m < m' \<or> m = m' \<and> d \<le> d')"
    by (simp add: append_le_same_length m d del: fixed_width.simps)
  have "(fixed_width 4 y @ ''-'' @ fixed_width 2 m @ ''-'' @ fixed_width 2 d \<le>
         fixed_width 4 y' @ ''-'' @ fixed_width 2 m' @ ''-'' @ fixed_width 2 d') =
      (y < y' \<or> y = y' \<and> (m < m' \<or> m = m' \<and> d \<le> d'))"
    using tail by (simp add: append_le_same_length y del: fixed_width.simps)
  then show ?thesis using assms by (simp only: iso_date_fixed_width)
qed

lemma iso_date_example: "iso_date 2024 1 3 = ''2024-01-03''"
  by code_simp

lemma format_ymd_iso:
  assumes "civil_from_days (day dt) = (y, m, d)" and "0 < y" and "0 \<le> m" and "0 \<le> d"
  shows "format_ymd dt = iso_date (nat y) (nat m) (nat d)"
  using assms by (simp add: format_ymd_def iso_date_def getFullYear_def getMonth_def getDate_def)

subsection \<open>Events of a cell\<close>

lemma cell_services_eq:
  "cell_services (getEventsForCell data d e) =
     filter (\<lambda>s. s_date s = d \<and> s_employee_id s = (if e = Undefined then Null else e))
       (services data)"
  by (simp add: getEventsForCell_def Let_def)

lemma cell_absences_eq:
  "cell_absences (getEventsForCell data d e) =
     filter (\<lambda>a. a_employee_id a = (if e = Undefined then Null else e) \<and>
                a_start_date a \<le> d \<and> d \<le> a_end_date a)
       (absences data)"
  by (simp add: getEventsForCell_def Let_def)

lemma church_line_services [simp]:
  "church_line (data\<lparr>services := xs\<rparr>) s = church_line data s"
  by (simp add: church_line_def)

lemma renderEventCard_services [simp]:
  "renderEventCard (data\<lparr>services := xs\<rparr>) ev = renderEventCard data ev"
  by (cases ev) (simp_all add: church_line_def)

lemma cell_services_defined:
  "cell_services (getEventsForCell
      (data\<lparr>services := filter (\<lambda>t. s_employee_id t \<noteq> Undefined) (services data)\<rparr>) d e) =
   cell_services (getEventsForCell data d e)"
  by (auto simp add: cell_services_eq intro: filter_cong)

lemma cell_absences_services [simp]:
  "cell_absences (getEventsForCell (data\<lparr>services := xs\<rparr>) d e) =
   cell_absences (getEventsForCell data d e)"
  by (simp add: cell_absences_eq)

lemma demo_a1_fields:
  "a_employee_id demo_a1 = Id ''e2''" "a_start_date demo_a1 = ''2024-01-01''"
  "a_end_date demo_a1 = ''2024-01-03''" "demo_a1 \<in> set (absences demo_data)"
  by (simp_all add: demo_a1_def demo_data_def)

text \<open>
  Claim C4. A service of the loaded data whose \<^verbatim>\<open>employee_id\<close> is \<^verbatim>\<open>null\<close> is among the
  services of the cell \<open>(d, null)\<close> exactly when \<open>d\<close> is its date, and among the services
  of no cell of an employee id: \<^verbatim>\<open>null\<close> is matched as a value, not as a wildcard. The
  inbox query returns unassigned services only, and the inbox cell of the date shows the
  card of the service.
\<close>

theorem inbox_services_explicit_null:
  assumes "s \<in> set (services data)" and "s_employee_id s = Null"
  shows "(s \<in> set (cell_services (getEventsForCell data d Null)) \<longleftrightarrow> d = s_date s) \<and>
         s \<notin> set (cell_services (getEventsForCell data d (Id i))) \<and>
         (\<forall>t \<in> set (cell_services (getEventsForCell data d Null)). s_employee_id t = Null) \<and>
         renderEventCard data (ServiceEvent s) \<in> set (inboxCell data (s_date s))"
  using assms by (auto simp add: cell_services_eq inboxCell_def)

theorem inbox_services_explicit_null_witness:
  "demo_s2 \<in> set (services demo_data) \<and> s_employee_id demo_s2 = Null \<and>
   demo_s2 \<in> set (cell_services (getEventsForCell demo_data ''2024-01-02'' Null)) \<and>
   demo_s2 \<notin> set (cell_services (getEventsForCell demo_data ''2024-01-03'' Null)) \<and>
   demo_s2 \<notin> set (cell_services (getEventsForCell demo_data ''2024-01-02'' (Id ''e1'')))"
  using inbox_services_explicit_null [of demo_s2 demo_data "''2024-01-02''" "''e1''"]
    inbox_services_explicit_null [of demo_s2 demo_data "''2024-01-03''" "''e1''"]
  by (simp add: demo_data_def demo_s2_def)

text \<open>
  Claim C5. An absence is among the absences of the cell \<open>(d, e)\<close> exactly when it is in
  the loaded data, its \<^verbatim>\<open>employee_id\<close> is \<open>e\<close>, and \<open>start_date \<le> d \<le> end_date\<close>, both ends
  included. The dates are compared as strings, which for dates written as
  \<^verbatim>\<open>yyyy-MM-dd\<close> is the order of the dates (lemma \<open>iso_date_le\<close>). The cell holds every
  absence that matches, in the order of the data, so overlapping absences are all
  returned.
\<close>

theorem absences_inclusive_range:
  "(a \<in> set (cell_absences (getEventsForCell data d (Id i))) \<longleftrightarrow>
      a \<in> set (absences data) \<and> a_employee_id a = Id i \<and>
      a_start_date a \<le> d \<and> d \<le> a_end_date a) \<and>
   (a \<in> set (cell_absences (getEventsForCell data d Null)) \<longleftrightarrow>
      a \<in> set (absences data) \<and> a_employee_id a = Null \<and>
      a_start_date a \<le> d \<and> d \<le> a_end_date a) \<and>
   cell_absences (getEventsForCell data d (Id i)) =
      filter (\<lambda>b. a_employee_id b = Id i \<and> a_start_date b \<le> d \<and> d \<le> a_end_date b)
        (absences data)"
  by (auto simp add: cell_absences_eq)

text \<open>
  The absence from 2024-01-01 to 2024-01-03 is returned on each of the three days, not
  on 2023-12-31 or 2024-01-04, and not for another employee; on 2024-01-02 both
  overlapping absences are returned.
\<close>

theorem absences_inclusive_range_witness:
  "demo_a1 \<in> set (cell_absences (getEventsForCell demo_data ''2024-01-01'' (Id ''e2''))) \<and>
   demo_a1 \<in> set (cell_absences (getEventsForCell demo_data ''2024-01-02'' (Id ''e2''))) \<and>
   demo_a1 \<in> set (cell_absences (getEventsForCell demo_data ''2024-01-03'' (Id ''e2''))) \<and>
   demo_a1 \<notin> set (cell_absences (getEventsForCell demo_data ''2023-12-31'' (Id ''e2''))) \<and>
   demo_a1 \<notin> set (cell_absences (getEventsForCell demo_data ''2024-01-04'' (Id ''e2''))) \<and>
   demo_a1 \<notin> set (cell_absences (getEventsForCell demo_data ''2024-01-02'' (Id ''e1''))) \<and>
   cell_absences (getEventsForCell demo_data ''2024-01-02'' (Id ''e2'')) = [demo_a1, demo_a2]"
proof -
  note range = absences_inclusive_range [of demo_a1 demo_data _ "''e2''"]
  have in1: "demo_a1 \<in> set (cell_absences (getEventsForCell demo_data ''2024-01-01'' (Id ''e2'')))"
    using range [of "''2024-01-01''"] by (simp add: demo_a1_fields)
  have in2: "demo_a1 \<in> set (cell_absences (getEventsForCell demo_data ''2024-01-02'' (Id ''e2'')))"
    using range [of "''2024-01-02''"] by (simp add: demo_a1_fields)
  have in3: "demo_a1 \<in> set (cell_absences (getEventsForCell demo_data ''2024-01-03'' (Id ''e2'')))"
    using range [of "''2024-01-03''"] by (simp add: demo_a1_fields)
  have out1: "demo_a1 \<notin> set (cell_absences (getEventsForCell demo_data ''2023-12-31'' (Id ''e2'')))"
    using range [of "''2023-12-31''"] by (simp add: demo_a1_fields)
  have out2: "demo_a1 \<notin> set (cell_absences (getEventsForCell demo_data ''2024-01-04'' (Id ''e2'')))"
    using range [of "''2024-01-04''"] by (simp add: demo_a1_fields)
  have out3: "demo_a1 \<notin> set (cell_absences (getEventsForCell demo_data ''2024-01-02'' (Id ''e1'')))"
    using absences_inclusive_range [of demo_a1 demo_data "''2024-01-02''" "''e1''"]
    by (simp add: demo_a1_fields)
  have both: "cell_absences (getEventsForCell demo_data ''2024-01-02'' (Id ''e2'')) =
      [demo_a1, demo_a2]"
    using range [of "''2024-01-02''"] by (simp add: demo_data_def demo_a1_def demo_a2_def)
  show ?thesis using in1 in2 in3 out1 out2 out3 both by simp
qed

text \<open>
  Claim C10. A service whose \<^verbatim>\<open>employee_id\<close> field is absent (\<^verbatim>\<open>undefined\<close>) is among
  the services of no cell, whatever the date and whatever is passed for the employee (an
  id, \<^verbatim>\<open>null\<close>, or nothing); the rows of the grid are those of the data without such
  services.
\<close>

theorem undefined_employee_in_no_cell:
  assumes "s_employee_id s = Undefined"
  shows "s \<notin> set (cell_services (getEventsForCell data d e)) \<and>
         calendarRows data =
         calendarRows (data\<lparr>services :=
            filter (\<lambda>t. s_employee_id t \<noteq> Undefined) (services data)\<rparr>)"
proof
  show "s \<notin> set (cell_services (getEventsForCell data d e))"
    using assms by (auto simp add: cell_services_eq)
  show "calendarRows data =
      calendarRows (data\<lparr>services :=
         filter (\<lambda>t. s_employee_id t \<noteq> Undefined) (services data)\<rparr>)"
    by (simp add: calendarRows_def inboxCell_def employeeCell_def Let_def cell_services_defined)
qed

theorem undefined_employee_in_no_cell_witness:
  "s_employee_id demo_s3 = Undefined \<and> demo_s3 \<in> set (services demo_data) \<and>
   demo_s3 \<notin> set (cell_services (getEventsForCell demo_data ''2024-01-02'' Null)) \<and>
   demo_s3 \<notin> set (cell_services (getEventsForCell demo_data ''2024-01-02'' Undefined)) \<and>
   demo_s3 \<notin> set (cell_services (getEventsForCell demo_data ''2024-01-02'' (Id ''e1''))) \<and>
   calendarRows demo_data = calendarRows (demo_data\<lparr>services := [demo_s1, demo_s2]\<rparr>)"
  using undefined_employee_in_no_cell [of demo_s3 demo_data "''2024-01-02''" Null]
    undefined_employee_in_no_cell [of demo_s3 demo_data "''2024-01-02''" Undefined]
    undefined_employee_in_no_cell [of demo_s3 demo_data "''2024-01-02''" "Id ''e1''"]
  by (simp add: demo_data_def demo_s1_def demo_s2_def demo_s3_def)

subsection \<open>Cards\<close>

lemma church_line_unknown:
  "s_church_id s \<notin> c_id ` set (churches data) \<Longrightarrow> church_line data s = ''Ukjent kirke''"
proof -
  assume "s_church_id s \<notin> c_id ` set (churches data)"
  then have "List.find (\<lambda>c. c_id c = s_church_id s) (churches data) = None"
    by (force simp add: find_None_iff)
  then show ?thesis by (simp add: church_line_def)
qed

lemma inboxCell_insert:
  "inboxCell (data\<lparr>services := xs @ s # ys\<rparr>) d =
     inboxCell (data\<lparr>services := xs\<rparr>) d @
     (if s_date s = d \<and> s_employee_id s = Null then [renderEventCard data (ServiceEvent s)] else []) @
     inboxCell (data\<lparr>services := ys\<rparr>) d"
  by (simp add: inboxCell_def cell_services_eq)

lemma inboxCell_append:
  "inboxCell (data\<lparr>services := xs @ ys\<rparr>) d =
     inboxCell (data\<lparr>services := xs\<rparr>) d @ inboxCell (data\<lparr>services := ys\<rparr>) d"
  by (simp add: inboxCell_def cell_services_eq)

lemma employeeCell_unaffected:
  fixes emp :: employee
  assumes "s_date s \<noteq> d \<or> s_employee_id s \<noteq> (if e_id emp = Undefined then Null else e_id emp)"
  shows "employeeCell (data\<lparr>services := xs @ s # ys\<rparr>) d emp =
         employeeCell (data\<lparr>services := xs @ ys\<rparr>) d emp"
  using assms by (auto simp add: employeeCell_def Let_def cell_services_eq)

lemma calendarRows_nth:
  "k < length (date_range data) \<Longrightarrow>
   calendarRows data ! k =
     \<lparr>row_date = date_range data ! k,
      inbox_cell = inboxCell data (date_range data ! k),
      employee_cells = map (employeeCell data (date_range data ! k)) (employees data)\<rparr>"
  by (simp add: calendarRows_def)

text \<open>
  Claim C8. For every service of the loaded data whose \<^verbatim>\<open>church_id\<close> is the id of no church
  of the catalogue, the card shows the sentinel \<^verbatim>\<open>Ukjent kirke\<close> in place of the church
  name, and the grid shows this card: in every row of the date of the service, the inbox
  cell holds it when the service is unassigned, and the cell of each employee with the
  \<^verbatim>\<open>employee_id\<close> of the service holds it. The rest of the grid is that of the data
  without this service: every row of another date is the same row, every cell of another
  date or another column is the same cell, each row holds exactly the cells computed for
  its date, there is one row for each date of the fetch, and the component shows the
  grid.
\<close>

theorem unknown_church_sentinel:
  assumes "s_church_id s \<notin> c_id ` set (churches data)"
    and "services data = xs @ s # ys"
  shows "renderEventCard data (ServiceEvent s) =
           ServiceCard (s_id s) (baseClass SERVICE_TYPES (s_type s)) (s_time s) ''Ukjent kirke''
             (case s_notes s of None \<Rightarrow> None | Some n \<Rightarrow> (if n = [] then None else Some n)) \<and>
         (s_employee_id s = Null \<longrightarrow>
            renderEventCard data (ServiceEvent s) \<in> set (inboxCell data (s_date s))) \<and>
         (\<forall>emp \<in> set (employees data). s_employee_id s = e_id emp \<longrightarrow> e_id emp \<noteq> Undefined \<longrightarrow>
            renderEventCard data (ServiceEvent s) \<in> set (employeeCell data (s_date s) emp)) \<and>
         (\<forall>d. s_date s \<noteq> d \<or> s_employee_id s \<noteq> Null \<longrightarrow>
            inboxCell data d = inboxCell (data\<lparr>services := xs @ ys\<rparr>) d) \<and>
         (\<forall>d. \<forall>emp :: employee.
            s_date s \<noteq> d \<or> s_employee_id s \<noteq> (if e_id emp = Undefined then Null else e_id emp) \<longrightarrow>
            employeeCell data d emp = employeeCell (data\<lparr>services := xs @ ys\<rparr>) d emp) \<and>
         map row_date (calendarRows data) = date_range data \<and>
         render (st\<lparr>calendarData := data, loading := False, error := None\<rparr>) =
           GridView (calendarRows data) \<and>
         (\<forall>k < length (date_range data).
            row_date (calendarRows data ! k) = date_range data ! k \<and>
            inbox_cell (calendarRows data ! k) = inboxCell data (date_range data ! k) \<and>
            employee_cells (calendarRows data ! k) =
              map (employeeCell data (date_range data ! k)) (employees data)) \<and>
         (\<forall>k < length (date_range data).
            date_range data ! k = s_date s \<longrightarrow> s_employee_id s = Null \<longrightarrow>
            ServiceCard (s_id s) (baseClass SERVICE_TYPES (s_type s)) (s_time s) ''Ukjent kirke''
              (case s_notes s of None \<Rightarrow> None | Some n \<Rightarrow> (if n = [] then None else Some n))
            \<in> set (inbox_cell (calendarRows data ! k))) \<and>
         (\<forall>k < length (date_range data). \<forall>i < length (employees data).
            date_range data ! k = s_date s \<longrightarrow> e_id (employees data ! i) = s_employee_id s \<longrightarrow>
            s_employee_id s \<noteq> Undefined \<longrightarrow>
            ServiceCard (s_id s) (baseClass SERVICE_TYPES (s_type s)) (s_time s) ''Ukjent kirke''
              (case s_notes s of None \<Rightarrow> None | Some n \<Rightarrow> (if n = [] then None else Some n))
            \<in> set (employee_cells (calendarRows data ! k) ! i)) \<and>
         (\<forall>k < length (date_range data).
            date_range data ! k \<noteq> s_date s \<longrightarrow>
            calendarRows data ! k = calendarRows (data\<lparr>services := xs @ ys\<rparr>) ! k)"
proof -
  let ?card = "ServiceCard (s_id s) (baseClass SERVICE_TYPES (s_type s)) (s_time s)
      ''Ukjent kirke''
      (case s_notes s of None \<Rightarrow> None | Some n \<Rightarrow> (if n = [] then None else Some n))"
  let ?rest = "data\<lparr>services := xs @ ys\<rparr>"
  have data: "data = data\<lparr>services := xs @ s # ys\<rparr>"
    using assms(2) by simp
  have card: "renderEventCard data (ServiceEvent s) = ?card"
    using church_line_unknown [OF assms(1)] by simp
  have own_inbox: "s_employee_id s = Null \<longrightarrow>
      renderEventCard data (ServiceEvent s) \<in> set (inboxCell data (s_date s))"
    using assms(2) by (simp add: inboxCell_def cell_services_eq)
  have own_cell: "\<forall>emp \<in> set (employees data). s_employee_id s = e_id emp \<longrightarrow>
      e_id emp \<noteq> Undefined \<longrightarrow>
      renderEventCard data (ServiceEvent s) \<in> set (employeeCell data (s_date s) emp)"
    using assms(2) by (simp add: employeeCell_def Let_def cell_services_eq)
  have inbox: "\<forall>d. s_date s \<noteq> d \<or> s_employee_id s \<noteq> Null \<longrightarrow>
      inboxCell data d = inboxCell ?rest d"
  proof (intro allI impI)
    fix d assume "s_date s \<noteq> d \<or> s_employee_id s \<noteq> Null"
    then have "inboxCell (data\<lparr>services := xs @ s # ys\<rparr>) d = inboxCell ?rest d"
      by (auto simp add: inboxCell_insert inboxCell_append)
    then show "inboxCell data d = inboxCell ?rest d"
      using data by simp
  qed
  have cells: "\<forall>d. \<forall>emp :: employee.
      s_date s \<noteq> d \<or> s_employee_id s \<noteq> (if e_id emp = Undefined then Null else e_id emp) \<longrightarrow>
      employeeCell data d emp = employeeCell ?rest d emp"
  proof (intro allI impI)
    fix d and emp :: employee
    assume "s_date s \<noteq> d \<or>
      s_employee_id s \<noteq> (if e_id emp = Undefined then Null else e_id emp)"
    then have "employeeCell (data\<lparr>services := xs @ s # ys\<rparr>) d emp = employeeCell ?rest d emp"
      by (rule employeeCell_unaffected)
    then show "employeeCell data d emp = employeeCell ?rest d emp"
      using data by simp
  qed
  have rows: "map row_date (calendarRows data) = date_range data"
    by (simp add: calendarRows_def comp_def)
  have view: "render (st\<lparr>calendarData := data, loading := False, error := None\<rparr>) =
      GridView (calendarRows data)"
    by (simp add: render_def)
  have row_cells: "\<forall>k < length (date_range data).
      row_date (calendarRows data ! k) = date_range data ! k \<and>
      inbox_cell (calendarRows data ! k) = inboxCell data (date_range data ! k) \<and>
      employee_cells (calendarRows data ! k) =
        map (employeeCell data (date_range data ! k)) (employees data)"
    by (simp add: calendarRows_nth)
  have grid_inbox: "\<forall>k < length (date_range data).
      date_range data ! k = s_date s \<longrightarrow> s_employee_id s = Null \<longrightarrow>
      ?card \<in> set (inbox_cell (calendarRows data ! k))"
    using own_inbox card by (simp add: calendarRows_nth)
  have grid_cell: "\<forall>k < length (date_range data). \<forall>i < length (employees data).
      date_range data ! k = s_date s \<longrightarrow> e_id (employees data ! i) = s_employee_id s \<longrightarrow>
      s_employee_id s \<noteq> Undefined \<longrightarrow>
      ?card \<in> set (employee_cells (calendarRows data ! k) ! i)"
  proof (intro allI impI)
    fix k i
    assume k: "k < length (date_range data)" and i: "i < length (employees data)"
      and date: "date_range data ! k = s_date s"
      and emp: "e_id (employees data ! i) = s_employee_id s"
      and defined: "s_employee_id s \<noteq> Undefined"
    have "employees data ! i \<in> set (employees data)" using i by simp
    then have "renderEventCard data (ServiceEvent s) \<in>
        set (employeeCell data (s_date s) (employees data ! i))"
      using own_cell emp defined by simp
    then show "?card \<in> set (employee_cells (calendarRows data ! k) ! i)"
      using k i date card by (simp add: calendarRows_nth)
  qed
  have other_rows: "\<forall>k < length (date_range data).
      date_range data ! k \<noteq> s_date s \<longrightarrow> calendarRows data ! k = calendarRows ?rest ! k"
  proof (intro allI impI)
    fix k
    assume k: "k < length (date_range data)" and other: "date_range data ! k \<noteq> s_date s"
    let ?d = "date_range data ! k"
    have "inboxCell data ?d = inboxCell ?rest ?d"
      using inbox other by auto
    moreover have "map (employeeCell data ?d) (employees data) =
        map (employeeCell ?rest ?d) (employees data)"
      using cells other by auto
    ultimately show "calendarRows data ! k = calendarRows ?rest ! k"
      using k by (simp add: calendarRows_nth)
  qed
  show ?thesis
    unfolding card
    using card own_inbox own_cell inbox cells rows view row_cells grid_inbox grid_cell other_rows
    by (intro conjI) (simp_all only: refl)
qed

lemma demo_row_of_s2:
  "calendarRows demo_data ! 1 =
     \<lparr>row_date = ''2024-01-02'',
      inbox_cell =
        [ServiceCard ''s2'' ''event-card service-vielse'' ''13:00'' ''Ukjent kirke'' (Some ''orgel'')],
      employee_cells =
        [[], [AbsenceCard ''a1'' ''event-card absence-ferie'' (Some ''Ferie''),
              AbsenceCard ''a2'' ''event-card absence-sykemelding'' (Some ''Sykemelding'')]]\<rparr>"
proof -
  have "(1::nat) < length (date_range demo_data)" by (simp add: demo_data_def)
  then have "calendarRows demo_data ! 1 =
     \<lparr>row_date = date_range demo_data ! 1,
      inbox_cell = inboxCell demo_data (date_range demo_data ! 1),
      employee_cells = map (employeeCell demo_data (date_range demo_data ! 1)) (employees demo_data)\<rparr>"
    by (rule calendarRows_nth)
  moreover have "date_range demo_data ! 1 = ''2024-01-02''" by (simp add: demo_data_def)
  moreover have "inboxCell demo_data ''2024-01-02'' =
      [ServiceCard ''s2'' ''event-card service-vielse'' ''13:00'' ''Ukjent kirke'' (Some ''orgel'')]"
    by (simp add: inboxCell_def cell_services_eq demo_data_def demo_s1_def demo_s2_def
        demo_s3_def church_line_def baseClass_def SERVICE_TYPES_def)
  moreover have "map (employeeCell demo_data ''2024-01-02'') (employees demo_data) =
      [[], [AbsenceCard ''a1'' ''event-card absence-ferie'' (Some ''Ferie''),
            AbsenceCard ''a2'' ''event-card absence-sykemelding'' (Some ''Sykemelding'')]]"
    by (simp add: employeeCell_def Let_def cell_services_eq cell_absences_eq demo_data_def
        demo_s1_def demo_s2_def demo_s3_def demo_a1_def demo_a2_def baseClass_def
        ABSENCE_TYPES_def)
  ultimately show ?thesis by simp
qed

text \<open>
  In the example, the inbox service \<open>s2\<close> names the unknown church \<open>c9\<close>: its card shows
  the sentinel and stands in the inbox cell of the row of 2024-01-02, beside the two
  absences of Berit; the cell of Anne on 2024-01-01 shows her service with its church.
\<close>

theorem unknown_church_sentinel_witness:
  "s_church_id demo_s2 \<notin> c_id ` set (churches demo_data) \<and>
   services demo_data = [demo_s1] @ demo_s2 # [demo_s3] \<and>
   renderEventCard demo_data (ServiceEvent demo_s2) =
     ServiceCard ''s2'' ''event-card service-vielse'' ''13:00'' ''Ukjent kirke'' (Some ''orgel'') \<and>
   inboxCell demo_data ''2024-01-02'' =
     [ServiceCard ''s2'' ''event-card service-vielse'' ''13:00'' ''Ukjent kirke'' (Some ''orgel'')] \<and>
   employeeCell demo_data ''2024-01-01'' \<lparr>e_id = Id ''e1'', e_name = ''Anne'', e_position = 0\<rparr> =
     [ServiceCard ''s1'' ''event-card service-gudstjeneste'' ''11:00'' ''Domkirken'' None] \<and>
   calendarRows demo_data ! 1 =
     \<lparr>row_date = ''2024-01-02'',
      inbox_cell =
        [ServiceCard ''s2'' ''event-card service-vielse'' ''13:00'' ''Ukjent kirke'' (Some ''orgel'')],
      employee_cells =
        [[], [AbsenceCard ''a1'' ''event-card absence-ferie'' (Some ''Ferie''),
              AbsenceCard ''a2'' ''event-card absence-sykemelding'' (Some ''Sykemelding'')]]\<rparr> \<and>
   calendarRows demo_data ! 0 = calendarRows (demo_data\<lparr>services := [demo_s1, demo_s3]\<rparr>) ! 0"
proof -
  have miss: "s_church_id demo_s2 \<notin> c_id ` set (churches demo_data)"
    by (simp add: demo_data_def demo_s2_def)
  have split: "services demo_data = [demo_s1] @ demo_s2 # [demo_s3]"
    by (simp add: demo_data_def)
  note inst = unknown_church_sentinel [OF miss split, of demo_state]
  have card: "renderEventCard demo_data (ServiceEvent demo_s2) =
      ServiceCard ''s2'' ''event-card service-vielse'' ''13:00'' ''Ukjent kirke'' (Some ''orgel'')"
    using inst by (simp add: demo_s2_def baseClass_def SERVICE_TYPES_def)
  have inbox: "inboxCell demo_data ''2024-01-02'' =
      [ServiceCard ''s2'' ''event-card service-vielse'' ''13:00'' ''Ukjent kirke'' (Some ''orgel'')]"
    using card
    by (simp add: inboxCell_def cell_services_eq demo_data_def demo_s1_def demo_s2_def demo_s3_def)
  have anne: "employeeCell demo_data ''2024-01-01''
        \<lparr>e_id = Id ''e1'', e_name = ''Anne'', e_position = 0\<rparr> =
      [ServiceCard ''s1'' ''event-card service-gudstjeneste'' ''11:00'' ''Domkirken'' None]"
    by (simp add: employeeCell_def Let_def cell_services_eq cell_absences_eq demo_data_def
        demo_s1_def demo_s2_def demo_s3_def demo_a1_def demo_a2_def church_line_def
        baseClass_def SERVICE_TYPES_def)
  have dates: "(0::nat) < length (date_range demo_data)"
    "date_range demo_data ! 0 \<noteq> s_date demo_s2"
    by (simp_all add: demo_data_def demo_s2_def)
  have monday: "calendarRows demo_data ! 0 =
      calendarRows (demo_data\<lparr>services := [demo_s1, demo_s3]\<rparr>) ! 0"
    using inst dates by simp
  show ?thesis using miss split card inbox anne demo_row_of_s2 monday by simp
qed

subsection \<open>Adding and renaming employees\<close>

lemma dropWhile_all: "(\<forall>x \<in> set (dropWhile P xs). P x) \<longleftrightarrow> (\<forall>x \<in> set xs. P x)"
proof
  assume all: "\<forall>x \<in> set (dropWhile P xs). P x"
  have "dropWhile P xs = []"
  proof (rule ccontr)
    assume ne: "dropWhile P xs \<noteq> []"
    then have "\<not> P (hd (dropWhile P xs))" by (rule hd_dropWhile)
    moreover have "hd (dropWhile P xs) \<in> set (dropWhile P xs)" using ne by simp
    ultimately show False using all by blast
  qed
  then show "\<forall>x \<in> set xs. P x" by (simp add: dropWhile_eq_Nil_conv)
next
  assume "\<forall>x \<in> set xs. P x"
  then show "\<forall>x \<in> set (dropWhile P xs). P x" by (auto dest: set_dropWhileD)
qed

lemma trim_blank: "trim name = [] \<longleftrightarrow> blank name"
proof -
  have "trim name = [] \<longleftrightarrow> (\<forall>x \<in> set (dropWhile js_whitespace name). js_whitespace x)"
    by (simp add: trim_def dropWhile_eq_Nil_conv)
  then show ?thesis by (simp add: dropWhile_all blank_def list_all_iff)
qed

lemma trim_decompose:
  "name = takeWhile js_whitespace name @ trim name @
          rev (takeWhile js_whitespace (rev (dropWhile js_whitespace name)))"
proof -
  let ?rest = "dropWhile js_whitespace name"
  have "takeWhile js_whitespace (rev ?rest) @ dropWhile js_whitespace (rev ?rest) = rev ?rest"
    by (rule takeWhile_dropWhile_id)
  then have "rev (takeWhile js_whitespace (rev ?rest) @ dropWhile js_whitespace (rev ?rest)) =
      rev (rev ?rest)"
    by (rule arg_cong)
  then have "trim name @ rev (takeWhile js_whitespace (rev ?rest)) = ?rest"
    by (simp only: rev_append rev_rev_ident trim_def)
  moreover have "takeWhile js_whitespace name @ ?rest = name"
    by (rule takeWhile_dropWhile_id)
  ultimately show ?thesis by simp
qed

lemma blank_takeWhile: "blank (takeWhile js_whitespace xs)"
  by (auto simp add: blank_def list_all_iff dest: set_takeWhileD)

lemma trim_surrounding:
  "\<exists>pre post. name = pre @ trim name @ post \<and> blank pre \<and> blank post"
proof -
  have "blank (rev (takeWhile js_whitespace (rev (dropWhile js_whitespace name))))"
    using blank_takeWhile [of "rev (dropWhile js_whitespace name)"]
    by (simp add: blank_def list_all_iff)
  then show ?thesis using trim_decompose [of name] blank_takeWhile [of name] by blast
qed

lemma trim_ends:
  assumes "trim name \<noteq> []"
  shows "\<not> js_whitespace (hd (trim name)) \<and> \<not> js_whitespace (last (trim name))"
proof
  let ?rest = "dropWhile js_whitespace name"
  let ?tail = "dropWhile js_whitespace (rev ?rest)"
  have tail: "?tail \<noteq> []" using assms by (simp add: trim_def)
  then have "\<not> js_whitespace (hd ?tail)" by (rule hd_dropWhile)
  then show "\<not> js_whitespace (last (trim name))"
    using tail by (simp add: trim_def last_rev)
  have rest: "?rest = trim name @ rev (takeWhile js_whitespace (rev ?rest))"
    using trim_decompose [of name] by (metis same_append_eq takeWhile_dropWhile_id)
  have "?rest \<noteq> []"
  proof
    assume e: "?rest = []"
    have "?tail = []" unfolding e by simp
    with tail show False by contradiction
  qed
  then have "\<not> js_whitespace (hd ?rest)" by (rule hd_dropWhile)
  moreover have "hd ?rest = hd (trim name)"
    using rest assms by (metis hd_append2)
  ultimately show "\<not> js_whitespace (hd (trim name))" by simp
qed

lemma space_is_whitespace: "js_whitespace CHR '' ''"
  by (simp add: js_whitespace_def)

lemma trim_blanks: "trim ''  '' = []"
  by (simp add: trim_def js_whitespace_def)

lemma trim_Ola: "trim ''Ola '' = ''Ola''"
  by (simp add: trim_def js_whitespace_def)

lemma demo_request_bodies:
  "w_start (dateRange demo_state) = ''2024-01-01''" "w_end (dateRange demo_state) = ''2024-01-07''"
  "compactMode demo_state = False" "length (employees (calendarData demo_state)) = 2"
  by (simp_all add: demo_state_def demo_data_def)

text \<open>
  Claim C7. For a blank name (empty or white space only) \<^verbatim>\<open>addEmployee\<close> sends no
  request and leaves the state as it is, so no error is shown, and the key handler of the
  input does nothing. For any other name the first request is the creation command, with
  the trimmed name and with the number of employees of the loaded data as position; the
  trimmed name is the name without the white space around it: it is not empty, it begins
  and ends with a character that is not white space, and what surrounds it in the name
  is blank.
\<close>

theorem addEmployee_trims:
  "(blank name \<longrightarrow>
      addEmployee r name result st = (st, []) \<and>
      newEmployeeKeyPress r key name result st = (st, [], name)) \<and>
   (\<not> blank name \<longrightarrow>
      (\<exists>st' more. addEmployee r name result st =
          (st', PostEmployees (trim name) (length (employees (calendarData r))) # more) \<and>
        newEmployeeKeyPress r ''Enter'' name result st =
          (st', PostEmployees (trim name) (length (employees (calendarData r))) # more, [])) \<and>
      (\<exists>pre post. name = pre @ trim name @ post \<and> blank pre \<and> blank post) \<and>
      trim name \<noteq> [] \<and>
      \<not> js_whitespace (hd (trim name)) \<and> \<not> js_whitespace (last (trim name)))"
proof (intro conjI impI)
  assume "blank name"
  then have empty: "trim name = []" by (simp add: trim_blank)
  then show "addEmployee r name result st = (st, [])" by (simp add: addEmployee_def)
  show "newEmployeeKeyPress r key name result st = (st, [], name)"
    using empty by (simp add: newEmployeeKeyPress_def)
next
  assume "\<not> blank name"
  then have ne: "trim name \<noteq> []" by (simp add: trim_blank)
  then show "trim name \<noteq> []" .
  show "\<exists>pre post. name = pre @ trim name @ post \<and> blank pre \<and> blank post"
    by (rule trim_surrounding)
  show "\<not> js_whitespace (hd (trim name))" using trim_ends [OF ne] by simp
  show "\<not> js_whitespace (last (trim name))" using trim_ends [OF ne] by simp
  show "\<exists>st' more. addEmployee r name result st =
          (st', PostEmployees (trim name) (length (employees (calendarData r))) # more) \<and>
        newEmployeeKeyPress r ''Enter'' name result st =
          (st', PostEmployees (trim name) (length (employees (calendarData r))) # more, [])"
    using ne
    by (cases result)
      (simp_all add: addEmployee_def newEmployeeKeyPress_def fetchCalendarData_send_def Let_def)
qed

text \<open>
  With two employees loaded, the name of two spaces gives no request, and \<^verbatim>\<open>"Ola "\<close> gives
  the creation command for \<^verbatim>\<open>"Ola"\<close> at position 2.
\<close>

theorem addEmployee_trims_witness:
  "blank ''  '' \<and> \<not> blank ''Ola '' \<and>
   addEmployee demo_state ''  '' (Inr ()) demo_state = (demo_state, []) \<and>
   hd (snd (addEmployee demo_state ''Ola '' (Inr ()) demo_state)) = PostEmployees ''Ola'' 2"
  using addEmployee_trims [of "''  ''" demo_state "Inr ()" demo_state "''Enter''"]
    addEmployee_trims [of "''Ola ''" demo_state "Inr ()" demo_state "''Enter''"]
  by (auto simp add: blank_def js_whitespace_def trim_Ola demo_state_def demo_data_def)

text \<open>
  Claim C1, as amended. For a name that is not blank, when the creation or the renaming
  succeeds the component starts a refresh: it sets \<^verbatim>\<open>loading\<close> and sends the calendar
  request for the window and the mode of the render that the handler belongs to. When
  the mutation fails it stores the error of the mutation and sends no calendar request.
\<close>

theorem mutation_refresh_on_success:
  assumes "\<not> blank name"
  shows "addEmployee r name (Inr u) st =
           (st\<lparr>loading := True\<rparr>,
            [PostEmployees (trim name) (length (employees (calendarData r))),
             PostCalendar \<lparr>start_date = w_start (dateRange r), end_date = w_end (dateRange r),
                           compact_mode = compactMode r\<rparr>]) \<and>
         addEmployee r name (Inl msg) st =
           (st\<lparr>error := Some (''Feil ved opprettelse av ansatt: '' @ msg)\<rparr>,
            [PostEmployees (trim name) (length (employees (calendarData r)))]) \<and>
         updateEmployeeName r employeeId name (Inr u) st =
           (st\<lparr>loading := True\<rparr>,
            [PutEmployee employeeId (trim name),
             PostCalendar \<lparr>start_date = w_start (dateRange r), end_date = w_end (dateRange r),
                           compact_mode = compactMode r\<rparr>]) \<and>
         updateEmployeeName r employeeId name (Inl msg) st =
           (st\<lparr>error := Some (''Feil ved oppdatering av ansatt: '' @ msg)\<rparr>,
            [PutEmployee employeeId (trim name)]) \<and>
         calendar_bodies (snd (addEmployee r name (Inl msg) st)) = [] \<and>
         calendar_bodies (snd (updateEmployeeName r employeeId name (Inl msg) st)) = []"
proof -
  have "trim name \<noteq> []" using assms by (simp add: trim_blank)
  then show ?thesis
    by (simp add: addEmployee_def updateEmployeeName_def fetchCalendarData_send_def Let_def)
qed

theorem mutation_refresh_on_success_witness:
  "\<not> blank ''Ola '' \<and>
   snd (addEmployee demo_state ''Ola '' (Inr ()) demo_state) =
     [PostEmployees ''Ola'' 2,
      PostCalendar \<lparr>start_date = ''2024-01-01'', end_date = ''2024-01-07'', compact_mode = False\<rparr>] \<and>
   snd (updateEmployeeName demo_state (Id ''e1'') ''Ola '' (Inr ()) demo_state) =
     [PutEmployee (Id ''e1'') ''Ola'',
      PostCalendar \<lparr>start_date = ''2024-01-01'', end_date = ''2024-01-07'', compact_mode = False\<rparr>]"
proof -
  have ok: "\<not> blank ''Ola ''" by (simp add: blank_def js_whitespace_def)
  show ?thesis
    using ok mutation_refresh_on_success [OF ok, of demo_state "()" demo_state "''x''" "Id ''e1''"]
    by (simp add: trim_Ola demo_request_bodies)
qed

text \<open>
  The claim as stated asks for a refresh after a failed mutation as well. When the call
  for creating or renaming \<^verbatim>\<open>Ola\<close> fails with status 500, the only request sent is the
  mutation, and the state changes in \<^verbatim>\<open>error\<close> only.
\<close>

theorem mutation_refresh_counterexample:
  "addEmployee demo_state ''Ola'' (Inl ''API call failed: 500 Internal Server Error'') demo_state =
     (demo_state\<lparr>error :=
        Some ''Feil ved opprettelse av ansatt: API call failed: 500 Internal Server Error''\<rparr>,
      [PostEmployees ''Ola'' 2]) \<and>
   calendar_bodies (snd (addEmployee demo_state ''Ola''
      (Inl ''API call failed: 500 Internal Server Error'') demo_state)) = [] \<and>
   updateEmployeeName demo_state (Id ''e1'') ''Ola''
      (Inl ''API call failed: 500 Internal Server Error'') demo_state =
     (demo_state\<lparr>error :=
        Some ''Feil ved oppdatering av ansatt: API call failed: 500 Internal Server Error''\<rparr>,
      [PutEmployee (Id ''e1'') ''Ola'']) \<and>
   calendar_bodies (snd (updateEmployeeName demo_state (Id ''e1'') ''Ola''
      (Inl ''API call failed: 500 Internal Server Error'') demo_state)) = []"
proof -
  have t: "trim ''Ola'' = ''Ola''" by (simp add: trim_def js_whitespace_def)
  show ?thesis
    by (simp add: addEmployee_def updateEmployeeName_def t demo_request_bodies)
qed

subsection \<open>Responses that arrive out of order\<close>

lemma respond_settles:
  "i < length (in_flight sys) \<Longrightarrow>
   respond backend i sys =
     \<lparr>app = fetchCalendarData_settle (backend (in_flight sys ! i)) (app sys),
      in_flight = take i (in_flight sys) @ drop (Suc i) (in_flight sys)\<rparr>"
  by (simp add: respond_def)

lemma settle_success:
  "fetchCalendarData_settle (Inr d) st = st\<lparr>calendarData := d, error := None, loading := False\<rparr>"
  by (simp add: fetchCalendarData_settle_def)

lemma format_2024_01_15: "format_ymd \<lparr>day = 19737, ms_of_day = m\<rparr> = ''2024-01-15''"
proof -
  have "format_ymd \<lparr>day = 19737, ms_of_day = 0\<rparr> = ''2024-01-15''" by code_simp
  then show ?thesis by (simp only: format_ymd_day [of _ m])
qed

lemma format_2024_01_21: "format_ymd \<lparr>day = 19743, ms_of_day = m\<rparr> = ''2024-01-21''"
proof -
  have "format_ymd \<lparr>day = 19743, ms_of_day = 0\<rparr> = ''2024-01-21''" by code_simp
  then show ?thesis by (simp only: format_ymd_day [of _ m])
qed

lemma weekRange_next:
  "weekRange no_dst \<lparr>day = 19732, ms_of_day = 43200000\<rparr> =
     (\<lparr>day = 19730, ms_of_day = 0\<rparr>, \<lparr>day = 19736, ms_of_day = 86399999\<rparr>)"
  by (simp add: weekRange_def startOfWeek_def endOfWeek_def getDay_def)

lemma weekRange_next_next:
  "weekRange no_dst \<lparr>day = 19739, ms_of_day = 43200000\<rparr> =
     (\<lparr>day = 19737, ms_of_day = 0\<rparr>, \<lparr>day = 19743, ms_of_day = 86399999\<rparr>)"
  by (simp add: weekRange_def startOfWeek_def endOfWeek_def getDay_def)

lemma demo_state_fields:
  "currentDate demo_state = \<lparr>day = 19725, ms_of_day = 43200000\<rparr>"
  "compactMode demo_state = False"
  by (simp_all add: demo_state_def)

lemma demo_first_refresh:
  "navigate_and_fetch no_dst ''next'' \<lparr>app = demo_state, in_flight = []\<rparr> =
     \<lparr>app = demo_state\<lparr>currentDate := \<lparr>day = 19732, ms_of_day = 43200000\<rparr>,
                       dateRange := \<lparr>w_start = ''2024-01-08'', w_end = ''2024-01-14''\<rparr>,
                       loading := True\<rparr>,
      in_flight = [\<lparr>start_date = ''2024-01-08'', end_date = ''2024-01-14'',
                    compact_mode = False\<rparr>]\<rparr>"
proof -
  have nav: "navigate no_dst ''next'' demo_state =
      demo_state\<lparr>currentDate := \<lparr>day = 19732, ms_of_day = 43200000\<rparr>,
                 dateRange := \<lparr>w_start = ''2024-01-08'', w_end = ''2024-01-14''\<rparr>\<rparr>"
    by (simp add: navigate_def navigateWeek_def dateRangeEffect_def addWeeks_def addDays_def
        demo_state_fields weekRange_next formatRange_def format_2024_01_08 format_2024_01_14)
  show ?thesis
    by (simp add: navigate_and_fetch_def nav refresh_def fetchEffect_def
        fetchCalendarData_send_def demo_state_fields)
qed

lemma demo_second_refresh:
  "demo_two_refreshes =
     \<lparr>app = demo_state\<lparr>currentDate := \<lparr>day = 19739, ms_of_day = 43200000\<rparr>,
                       dateRange := \<lparr>w_start = ''2024-01-15'', w_end = ''2024-01-21''\<rparr>,
                       loading := True\<rparr>,
      in_flight = [\<lparr>start_date = ''2024-01-08'', end_date = ''2024-01-14'',
                    compact_mode = False\<rparr>,
                   \<lparr>start_date = ''2024-01-15'', end_date = ''2024-01-21'',
                    compact_mode = False\<rparr>]\<rparr>"
proof -
  let ?st1 = "demo_state\<lparr>currentDate := \<lparr>day = 19732, ms_of_day = 43200000\<rparr>,
                 dateRange := \<lparr>w_start = ''2024-01-08'', w_end = ''2024-01-14''\<rparr>,
                 loading := True\<rparr>"
  have nav: "navigate no_dst ''next'' ?st1 =
      demo_state\<lparr>currentDate := \<lparr>day = 19739, ms_of_day = 43200000\<rparr>,
                 dateRange := \<lparr>w_start = ''2024-01-15'', w_end = ''2024-01-21''\<rparr>,
                 loading := True\<rparr>"
    by (simp add: navigate_def navigateWeek_def dateRangeEffect_def addWeeks_def addDays_def
        weekRange_next_next formatRange_def format_2024_01_15 format_2024_01_21)
  show ?thesis
    unfolding demo_two_refreshes_def demo_first_refresh
    by (simp add: navigate_and_fetch_def nav refresh_def fetchEffect_def
        fetchCalendarData_send_def demo_state_fields)
qed

text \<open>
  Claim C3, as amended. When two calendar requests are in flight, \<open>b1\<close> sent before \<open>b2\<close>,
  and both succeed, the data shown after both have settled is the data of the response
  that arrived last: the data for \<open>b1\<close> when its response arrives after that for \<open>b2\<close>, the
  data for \<open>b2\<close> when the responses arrive in the order of the requests. The window of the
  state is not changed by a response.
\<close>

theorem last_response_wins:
  assumes "in_flight sys = [b1, b2]" and "backend b1 = Inr d1" and "backend b2 = Inr d2"
  shows "calendarData (app (respond backend 0 (respond backend 1 sys))) = d1 \<and>
         render (app (respond backend 0 (respond backend 1 sys))) = GridView (calendarRows d1) \<and>
         in_flight (respond backend 0 (respond backend 1 sys)) = [] \<and>
         calendarData (app (respond backend 0 (respond backend 0 sys))) = d2 \<and>
         dateRange (app (respond backend 0 (respond backend 1 sys))) = dateRange (app sys)"
proof -
  have first: "respond backend 1 sys =
      \<lparr>app = (app sys)\<lparr>calendarData := d2, error := None, loading := False\<rparr>, in_flight = [b1]\<rparr>"
    using assms by (simp add: respond_settles settle_success)
  have late: "respond backend 0 (respond backend 1 sys) =
      \<lparr>app = (app sys)\<lparr>calendarData := d1, error := None, loading := False\<rparr>, in_flight = []\<rparr>"
    using assms by (simp add: first respond_settles settle_success)
  have ordered: "respond backend 0 (respond backend 0 sys) =
      \<lparr>app = (app sys)\<lparr>calendarData := d2, error := None, loading := False\<rparr>, in_flight = []\<rparr>"
    using assms by (simp add: respond_settles settle_success)
  show ?thesis unfolding late ordered by (simp add: render_def)
qed

theorem last_response_wins_witness:
  "in_flight demo_two_refreshes =
     [\<lparr>start_date = ''2024-01-08'', end_date = ''2024-01-14'', compact_mode = False\<rparr>,
      \<lparr>start_date = ''2024-01-15'', end_date = ''2024-01-21'', compact_mode = False\<rparr>] \<and>
   date_range (calendarData (app
      (respond demo_backend 0 (respond demo_backend 1 demo_two_refreshes)))) =
     [''2024-01-08'', ''2024-01-14''] \<and>
   date_range (calendarData (app
      (respond demo_backend 0 (respond demo_backend 0 demo_two_refreshes)))) =
     [''2024-01-15'', ''2024-01-21'']"
proof -
  let ?b1 = "\<lparr>start_date = ''2024-01-08'', end_date = ''2024-01-14'', compact_mode = False\<rparr>"
  let ?b2 = "\<lparr>start_date = ''2024-01-15'', end_date = ''2024-01-21'', compact_mode = False\<rparr>"
  have fl: "in_flight demo_two_refreshes = [?b1, ?b2]"
    by (simp add: demo_second_refresh)
  have r1: "demo_backend ?b1 =
      Inr \<lparr>services = [], absences = [], employees = [], churches = [],
           date_range = [''2024-01-08'', ''2024-01-14'']\<rparr>"
    by (simp add: demo_backend_def)
  have r2: "demo_backend ?b2 =
      Inr \<lparr>services = [], absences = [], employees = [], churches = [],
           date_range = [''2024-01-15'', ''2024-01-21'']\<rparr>"
    by (simp add: demo_backend_def)
  show ?thesis
    using fl last_response_wins [OF fl r1 r2] by simp
qed

text \<open>
  The claim as stated asks that the request sent last wins. After two navigations the
  window is the week of 2024-01-15; when the response for the week of 2024-01-08 arrives
  last, the grid shows the rows of that older response.
\<close>

theorem stale_response_counterexample:
  "in_flight demo_two_refreshes =
     [\<lparr>start_date = ''2024-01-08'', end_date = ''2024-01-14'', compact_mode = False\<rparr>,
      \<lparr>start_date = ''2024-01-15'', end_date = ''2024-01-21'', compact_mode = False\<rparr>] \<and>
   dateRange (app (respond demo_backend 0 (respond demo_backend 1 demo_two_refreshes))) =
     \<lparr>w_start = ''2024-01-15'', w_end = ''2024-01-21''\<rparr> \<and>
   calendarData (app (respond demo_backend 0 (respond demo_backend 1 demo_two_refreshes))) =
     \<lparr>services = [], absences = [], employees = [], churches = [],
      date_range = [''2024-01-08'', ''2024-01-14'']\<rparr> \<and>
   render (app (respond demo_backend 0 (respond demo_backend 1 demo_two_refreshes))) =
     GridView [\<lparr>row_date = ''2024-01-08'', inbox_cell = [], employee_cells = []\<rparr>,
               \<lparr>row_date = ''2024-01-14'', inbox_cell = [], employee_cells = []\<rparr>]"
  by (simp add: demo_second_refresh respond_def fetchCalendarData_settle_def demo_backend_def
      render_def calendarRows_def inboxCell_def cell_services_eq)

end
